theory Spec2Isabelle
  imports Main "HOL-Library.Sublist"
begin

section \<open>Go standard library: strings\<close>

text \<open>
  A Go \<open>string\<close> is a sequence of bytes; it is modelled as \<open>string\<close> (a list of
  \<open>char\<close>, one per byte). The functions of package \<open>strings\<close> the handlers call
  are written out by their documented behaviour.
\<close>

definition HasPrefix :: "string \<Rightarrow> string \<Rightarrow> bool" where
  "HasPrefix s p = (take (length p) s = p)"

definition HasSuffix :: "string \<Rightarrow> string \<Rightarrow> bool" where
  "HasSuffix s p = (length p \<le> length s \<and> drop (length s - length p) s = p)"

definition TrimPrefix :: "string \<Rightarrow> string \<Rightarrow> string" where
  "TrimPrefix s p = (if HasPrefix s p then drop (length p) s else s)"

definition TrimSuffix :: "string \<Rightarrow> string \<Rightarrow> string" where
  "TrimSuffix s p = (if HasSuffix s p then take (length s - length p) s else s)"

fun Contains :: "string \<Rightarrow> string \<Rightarrow> bool" where
  "Contains [] p = (p = [])"
| "Contains (c # cs) p = (HasPrefix (c # cs) p \<or> Contains cs p)"

text \<open>\<open>strings.ReplaceAll(s, "/", "%2F")\<close>, the one replacement the handlers make.\<close>

fun ReplaceSlash :: "string \<Rightarrow> string" where
  "ReplaceSlash [] = []"
| "ReplaceSlash (c # cs) = (if c = CHR ''/'' then ''%2F'' @ ReplaceSlash cs else c # ReplaceSlash cs)"

text \<open>
  \<open>strings.Split(s, sep)\<close> for a non-empty separator: the pieces of \<open>s\<close> between the
  non-overlapping occurrences of \<open>sep\<close>, found from the left. \<open>SplitAcc\<close> carries the
  current piece reversed.
\<close>

function SplitAcc :: "string \<Rightarrow> string \<Rightarrow> string \<Rightarrow> string list" where
  "SplitAcc sep acc [] = [rev acc]"
| "SplitAcc sep acc (c # cs) =
     (if sep \<noteq> [] \<and> HasPrefix (c # cs) sep
      then rev acc # SplitAcc sep [] (drop (length sep - 1) cs)
      else SplitAcc sep (c # acc) cs)"
  by pat_completeness auto
termination
  by (relation "measure (\<lambda>(sep, acc, s). length s)") auto

definition Split :: "string \<Rightarrow> string \<Rightarrow> string list" where
  "Split s sep = SplitAcc sep [] s"

text \<open>\<open>strings.TrimSpace\<close>, on the ASCII white space (tab, LF, VT, FF, CR, space).\<close>

definition isSpace :: "char \<Rightarrow> bool" where
  "isSpace c = (c \<in> set [CHR 0x09, CHR 0x0A, CHR 0x0B, CHR 0x0C, CHR 0x0D, CHR '' ''])"

definition TrimSpace :: "string \<Rightarrow> string" where
  "TrimSpace s = rev (dropWhile isSpace (rev (dropWhile isSpace s)))"

text \<open>Decimal rendering of a natural number and of an integer (\<open>%d\<close> of \<open>fmt.Sprintf\<close>).\<close>

definition digit_char :: "nat \<Rightarrow> char" where
  "digit_char d = char_of (48 + d)"

fun show_nat :: "nat \<Rightarrow> string" where
  "show_nat n = (if n < 10 then [digit_char n] else show_nat (n div 10) @ [digit_char (n mod 10)])"

declare show_nat.simps [simp del]

definition show_int :: "int \<Rightarrow> string" where
  "show_int i = (if i < 0 then CHR ''-'' # show_nat (nat (- i)) else show_nat (nat i))"

section \<open>Go standard library: lexical paths\<close>

text \<open>
  \<open>path.Clean\<close> (and \<open>filepath.Clean\<close>, which is the same function on a Unix host)
  by its documented rules: multiple slashes become one, every \<open>.\<close> element goes, every
  inner \<open>..\<close> element goes with the element before it, a \<open>..\<close> that begins a rooted
  path goes, and the empty result is \<open>.\<close>. The path is cut into its elements, the elements
  are pushed on a stack (kept reversed), and the stack is written out again.
\<close>

fun split_slash :: "string \<Rightarrow> string list" where
  "split_slash [] = [[]]"
| "split_slash (c # cs) =
     (if c = CHR ''/'' then [] # split_slash cs
      else (case split_slash cs of [] \<Rightarrow> [[c]] | h # t \<Rightarrow> (c # h) # t))"

fun join_slash :: "string list \<Rightarrow> string" where
  "join_slash [] = []"
| "join_slash [x] = x"
| "join_slash (x # y # r) = x @ ''/'' @ join_slash (y # r)"

definition is_rooted :: "string \<Rightarrow> bool" where
  "is_rooted p = (case p of [] \<Rightarrow> False | c # _ \<Rightarrow> c = CHR ''/'')"

fun clean_step :: "bool \<Rightarrow> string list \<Rightarrow> string \<Rightarrow> string list" where
  "clean_step rooted st c =
     (if c = [] \<or> c = ''.'' then st
      else if c = ''..'' then
        (case st of
           [] \<Rightarrow> if rooted then [] else [''..'']
         | t # ts \<Rightarrow> if t = ''..'' then ''..'' # t # ts else ts)
      else c # st)"

definition elements :: "string \<Rightarrow> string list" where
  "elements p = rev (foldl (clean_step (is_rooted p)) [] (split_slash p))"

definition render :: "bool \<Rightarrow> string list \<Rightarrow> string" where
  "render rooted es =
     (if rooted then CHR ''/'' # join_slash es
      else if es = [] then ''.'' else join_slash es)"

definition Clean :: "string \<Rightarrow> string" where
  "Clean p = render (is_rooted p) (elements p)"

text \<open>
  \<open>path.Join\<close> and \<open>filepath.Join\<close>: the leading empty elements are dropped, the rest
  is joined with slashes and cleaned; no non-empty element gives the empty string.
\<close>

definition Join :: "string list \<Rightarrow> string" where
  "Join elems =
     (case dropWhile (\<lambda>e. e = []) elems of
        [] \<Rightarrow> []
      | e # es \<Rightarrow> Clean (join_slash (e # es)))"

text \<open>
  \<open>filepath.Base\<close>: the last element of the path, trailing slashes removed first;
  \<open>.\<close> for the empty path and \<open>/\<close> for a path of slashes only.
\<close>

definition is_slash :: "char \<Rightarrow> bool" where
  "is_slash c = (c = CHR ''/'')"

definition filepath_Base :: "string \<Rightarrow> string" where
  "filepath_Base p =
     (if p = [] then ''.''
      else let q = rev (dropWhile is_slash (rev p));
               b = rev (takeWhile (\<lambda>c. \<not> is_slash c) (rev q))
           in if b = [] then ''/'' else b)"

text \<open>\<open>filepath.Dir\<close>: everything up to the last slash, cleaned.\<close>

definition filepath_Dir :: "string \<Rightarrow> string" where
  "filepath_Dir p = Clean (rev (dropWhile (\<lambda>c. \<not> is_slash c) (rev p)))"

text \<open>An element that names something below a directory: not empty, not \<open>.\<close>, not \<open>..\<close>, no slash.\<close>

definition plain_element :: "string \<Rightarrow> bool" where
  "plain_element e = (e \<noteq> [] \<and> e \<noteq> ''.'' \<and> e \<noteq> ''..'' \<and> CHR ''/'' \<notin> set e)"


section \<open>Go standard library: HTTP headers\<close>

text \<open>
  \<open>http.Header\<close> is a map from canonical keys to lists of values; it is modelled as an
  association list. \<open>http.CanonicalHeaderKey\<close> leaves a key with a byte outside the
  token characters as it is, and otherwise upper-cases the first letter and every letter
  after a hyphen and lower-cases the others. \<open>Set\<close>, \<open>Add\<close> and \<open>Get\<close> canonicalise
  the key they are given.
\<close>

type_synonym header = "(string \<times> string list) list"

definition validHeaderFieldByte :: "char \<Rightarrow> bool" where
  "validHeaderFieldByte c =
     (let n = (of_char c :: nat)
      in (48 \<le> n \<and> n \<le> 57) \<or> (65 \<le> n \<and> n \<le> 90) \<or> (97 \<le> n \<and> n \<le> 122)
         \<or> n \<in> set [33, 35, 36, 37, 38, 39, 42, 43, 45, 46, 94, 95, 96, 124, 126])"

definition upper_char :: "char \<Rightarrow> char" where
  "upper_char c =
     (let n = (of_char c :: nat) in if 97 \<le> n \<and> n \<le> 122 then char_of (n - 32) else c)"

definition lower_char :: "char \<Rightarrow> char" where
  "lower_char c =
     (let n = (of_char c :: nat) in if 65 \<le> n \<and> n \<le> 90 then char_of (n + 32) else c)"

fun canon_from :: "bool \<Rightarrow> string \<Rightarrow> string" where
  "canon_from upper [] = []"
| "canon_from upper (c # cs) =
     (let c' = (if upper then upper_char c else lower_char c)
      in c' # canon_from (c' = CHR ''-'') cs)"

definition CanonicalHeaderKey :: "string \<Rightarrow> string" where
  "CanonicalHeaderKey s = (if list_all validHeaderFieldByte s then canon_from True s else s)"

fun assoc_set :: "'k \<Rightarrow> 'v \<Rightarrow> ('k \<times> 'v) list \<Rightarrow> ('k \<times> 'v) list" where
  "assoc_set k v [] = [(k, v)]"
| "assoc_set k v ((k', v') # r) = (if k = k' then (k, v) # r else (k', v') # assoc_set k v r)"

definition Header_Values :: "header \<Rightarrow> string \<Rightarrow> string list" where
  "Header_Values h k = (case map_of h (CanonicalHeaderKey k) of None \<Rightarrow> [] | Some vs \<Rightarrow> vs)"

definition Header_Get :: "header \<Rightarrow> string \<Rightarrow> string" where
  "Header_Get h k = (case Header_Values h k of [] \<Rightarrow> [] | v # _ \<Rightarrow> v)"

definition Header_Set :: "header \<Rightarrow> string \<Rightarrow> string \<Rightarrow> header" where
  "Header_Set h k v = assoc_set (CanonicalHeaderKey k) [v] h"

definition Header_Add :: "header \<Rightarrow> string \<Rightarrow> string \<Rightarrow> header" where
  "Header_Add h k v = assoc_set (CanonicalHeaderKey k) (Header_Values h k @ [v]) h"

section \<open>The world of one request: files, upstream, library\<close>

text \<open>
  The cache is a set of files on disk. A file has its bytes and its modification time (in
  nanoseconds); the file system maps a path to a file and is keyed by the cleaned path, so
  two spellings of one path name one file. Directories are not modelled: \<open>MkdirAll\<close>
  only succeeds or fails. Every operation on the file system and every call to the
  upstream is also written to a log, so that a theorem can say which operations a
  function performed.
\<close>

record cache_file =
  content :: string
  mtime :: int

datatype fs_op =
    OpMkdirAll string
  | OpCreate string int
  | OpWrite string string int
  | OpChtimes string int
  | OpClose string
  | OpRename string string
  | OpRemove string

type_synonym filesystem = "string \<Rightarrow> cache_file option"

fun apply_op :: "fs_op \<Rightarrow> filesystem \<Rightarrow> filesystem" where
  "apply_op (OpMkdirAll p) fs = fs"
| "apply_op (OpCreate p t) fs = fs(Clean p \<mapsto> \<lparr>content = [], mtime = t\<rparr>)"
| "apply_op (OpWrite p d t) fs = fs(Clean p \<mapsto> \<lparr>content = d, mtime = t\<rparr>)"
| "apply_op (OpChtimes p t) fs =
     (case fs (Clean p) of None \<Rightarrow> fs | Some f \<Rightarrow> fs(Clean p \<mapsto> f\<lparr>mtime := t\<rparr>))"
| "apply_op (OpClose p) fs = fs"
| "apply_op (OpRename old new) fs =
     (if Clean old = Clean new then fs
      else case fs (Clean old) of
             None \<Rightarrow> fs
           | Some f \<Rightarrow> (fs(Clean new \<mapsto> f))(Clean old := None))"
| "apply_op (OpRemove p) fs = fs(Clean p := None)"

text \<open>The path an operation may change the file of.\<close>

fun op_targets :: "fs_op \<Rightarrow> string list" where
  "op_targets (OpMkdirAll p) = []"
| "op_targets (OpCreate p t) = [Clean p]"
| "op_targets (OpWrite p d t) = [Clean p]"
| "op_targets (OpChtimes p t) = [Clean p]"
| "op_targets (OpClose p) = []"
| "op_targets (OpRename old new) = [Clean old, Clean new]"
| "op_targets (OpRemove p) = [Clean p]"

datatype upstream_call =
    ConditionalGet string header
  | PlainGet string "(string \<times> string) list"
  | CompareGet string
  | ProxyCall string string header

record world =
  files :: filesystem
  fs_log :: "fs_op list"
  upstream_log :: "upstream_call list"

definition fs_do :: "fs_op \<Rightarrow> world \<Rightarrow> world" where
  "fs_do op w = w\<lparr>files := apply_op op (files w), fs_log := fs_log w @ [op]\<rparr>"

definition call_upstream :: "upstream_call \<Rightarrow> world \<Rightarrow> world" where
  "call_upstream c w = w\<lparr>upstream_log := upstream_log w @ [c]\<rparr>"

definition os_Stat_ok :: "world \<Rightarrow> string \<Rightarrow> bool" where
  "os_Stat_ok w p = (files w (Clean p) \<noteq> None)"

record http_response =
  StatusCode :: nat
  Header :: header
  Body :: string

text \<open>
  JSON values as \<open>encoding/json\<close> decodes them into \<open>any\<close>: an object is a
  \<open>map[string]any\<close>, written as an association list. A number is kept by the bits of
  its \<open>float64\<close>. A \<open>map[string]any\<close> variable may also be the nil map (what decoding
  \<open>null\<close> leaves): \<open>None\<close>.
\<close>

datatype json =
    JNull
  | JBool bool
  | JNum int
  | JStr string
  | JArr "json list"
  | JObj "(string \<times> json) list"

type_synonym packument = "(string \<times> json) list option"

record URL =
  Scheme :: string
  Host :: string
  Path :: string
  RawQuery :: string

record cacheMeta =
  ETag :: string
  LastModified :: string

record cargoIndexConfig =
  cfg_DL :: string
  cfg_API :: string
  AuthRequired :: bool

text \<open>
  The functions of Go's standard library whose results the handlers only pass on are
  parameters of the model: the SHA-256 digest in hexadecimal, \<open>url.Parse\<close> (\<open>None\<close>
  when it returns an error), \<open>url.PathUnescape\<close>, \<open>time.Parse\<close> with
  \<open>http.TimeFormat\<close>, and the JSON encoder and decoder at the three types the handlers
  use. \<open>json.Marshal\<close> cannot fail on a struct of strings and booleans nor on a value
  that \<open>json.Unmarshal\<close> produced, so the encoders are total and the handlers' branches
  for an encoding error are never taken. Decoding into the meta struct gives the struct as
  far as it was filled and whether an error was returned.
\<close>

record golib =
  sha256_hex :: "string \<Rightarrow> string"
  url_Parse :: "string \<Rightarrow> URL option"
  url_PathUnescape :: "string \<Rightarrow> string option"
  time_Parse :: "string \<Rightarrow> int option"
  json_Marshal_meta :: "cacheMeta \<Rightarrow> string"
  json_Unmarshal_meta :: "string \<Rightarrow> cacheMeta \<times> bool"
  json_Marshal_config :: "cargoIndexConfig \<Rightarrow> string"
  json_Unmarshal_packument :: "string \<Rightarrow> packument option"
  json_Marshal_packument :: "packument \<Rightarrow> string"

section \<open>pkg/misc: the conditional fetcher\<close>

datatype error =
    ErrRequest
  | ErrTransport
  | ErrUpstream nat
  | ErrMkdir
  | ErrRand
  | ErrCreate
  | ErrCopy
  | ErrStat
  | ErrChtimes
  | ErrClose
  | ErrRename
  | ErrPlain

text \<open>
  What the outside decides during one call of \<open>DownloadFileConditional\<close>: whether the
  request can be built, the upstream's response (\<open>None\<close> for a transport error), the
  outcome of each system call, the random number, the clock, and how far \<open>io.Copy\<close>
  gets (\<open>Some k\<close>: it fails after \<open>k\<close> bytes).
\<close>

record cond_env =
  NewRequest_ok :: bool
  Do_response :: "http_response option"
  MkdirAll_ok :: bool
  rand_Int :: "nat option"
  UnixNano :: int
  Create_ok :: bool
  Copy_fail_at :: "nat option"
  Stat_ok :: bool
  Chtimes_ok :: bool
  Close_ok :: bool
  Rename_ok :: bool

record cond_result =
  code :: nat
  newETag :: string
  newLastModified :: string
  notModified :: bool
  err :: "error option"

definition failed :: "nat \<Rightarrow> string \<Rightarrow> string \<Rightarrow> error \<Rightarrow> cond_result" where
  "failed c e l x = \<lparr>code = c, newETag = e, newLastModified = l, notModified = False, err = Some x\<rparr>"

definition request_header :: "(string \<times> string) list \<Rightarrow> string \<Rightarrow> string \<Rightarrow> header" where
  "request_header headers etag lastModified =
     (let h0 = Header_Set [] ''User-Agent'' ''hub'';
          h1 = foldl (\<lambda>h (k, v). Header_Set h k v) h0 headers;
          h2 = (if etag \<noteq> [] then Header_Set h1 ''If-None-Match'' etag else h1)
      in if lastModified \<noteq> [] then Header_Set h2 ''If-Modified-Since'' lastModified else h2)"

definition tempFileName :: "string \<Rightarrow> int \<Rightarrow> nat \<Rightarrow> string" where
  "tempFileName destination nanos n =
     ''.tmp.'' @ filepath_Base (Clean destination) @ ''.'' @ show_int nanos @ ''.'' @ show_nat n"

definition tempFilePath :: "string \<Rightarrow> int \<Rightarrow> nat \<Rightarrow> string" where
  "tempFilePath destination nanos n =
     Join [filepath_Dir (Clean destination), tempFileName destination nanos n]"

text \<open>
  The part of \<open>DownloadFileConditional\<close> that runs after the temporary file is created,
  up to the return; the deferred \<open>os.Remove\<close> is applied to its result by the caller
  below.
\<close>

definition streamToDestination ::
  "golib \<Rightarrow> cond_env \<Rightarrow> http_response \<Rightarrow> string \<Rightarrow> string \<Rightarrow> world \<Rightarrow> cond_result \<times> world" where
  "streamToDestination lib e response destination tempFile w =
     (let newETag = Header_Get (Header response) ''ETag'';
          newLastModified = Header_Get (Header response) ''Last-Modified''
      in case Copy_fail_at e of
           Some k \<Rightarrow>
             (failed 400 newETag newLastModified ErrCopy,
              fs_do (OpWrite tempFile (take k (Body response)) (UnixNano e)) w)
         | None \<Rightarrow>
             let w1 = fs_do (OpWrite tempFile (Body response) (UnixNano e)) w;
                 parsed = (if newLastModified \<noteq> [] then time_Parse lib newLastModified else None)
             in if parsed \<noteq> None \<and> \<not> Stat_ok e then (failed 500 newETag newLastModified ErrStat, w1)
                else if parsed \<noteq> None \<and> \<not> Chtimes_ok e then (failed 500 newETag newLastModified ErrChtimes, w1)
                else
                  let w2 = (case parsed of None \<Rightarrow> w1 | Some t \<Rightarrow> fs_do (OpChtimes tempFile t) w1)
                  in if \<not> Close_ok e then (failed 500 newETag newLastModified ErrClose, w2)
                     else
                       let w3 = fs_do (OpClose tempFile) w2
                       in if \<not> Rename_ok e then (failed 500 newETag newLastModified ErrRename, w3)
                          else (\<lparr>code = 200, newETag = newETag, newLastModified = newLastModified,
                                 notModified = False, err = None\<rparr>,
                                fs_do (OpRename tempFile destination) w3))"

definition DownloadFileConditional ::
  "golib \<Rightarrow> cond_env \<Rightarrow> string \<Rightarrow> string \<Rightarrow> (string \<times> string) list \<Rightarrow> string \<Rightarrow> string
     \<Rightarrow> world \<Rightarrow> cond_result \<times> world" where
  "DownloadFileConditional lib e url destination headers etag lastModified w =
     (if \<not> NewRequest_ok e then (failed 400 [] [] ErrRequest, w)
      else
        let w1 = call_upstream (ConditionalGet url (request_header headers etag lastModified)) w
        in case Do_response e of
             None \<Rightarrow> (failed 502 [] [] ErrTransport, w1)
           | Some response \<Rightarrow>
               let newETag = Header_Get (Header response) ''ETag'';
                   newLastModified = Header_Get (Header response) ''Last-Modified''
               in if StatusCode response = 304
                  then (\<lparr>code = 304, newETag = newETag, newLastModified = newLastModified,
                         notModified = True, err = None\<rparr>, w1)
                  else if StatusCode response \<noteq> 200
                  then (failed (StatusCode response) newETag newLastModified
                          (ErrUpstream (StatusCode response)), w1)
                  else if \<not> MkdirAll_ok e
                  then (failed 409 newETag newLastModified ErrMkdir, w1)
                  else
                    let w2 = fs_do (OpMkdirAll (filepath_Dir destination)) w1
                    in case rand_Int e of
                         None \<Rightarrow> (failed 500 newETag newLastModified ErrRand, w2)
                       | Some n \<Rightarrow>
                           let tempFile = Clean (tempFilePath destination (UnixNano e) n)
                           in if \<not> Create_ok e
                              then (failed 500 newETag newLastModified ErrCreate, w2)
                              else
                                let w3 = fs_do (OpCreate tempFile (UnixNano e)) w2;
                                    (r, w4) = streamToDestination lib e response destination tempFile w3
                                in (r, fs_do (OpRemove tempFile) w4))"

text \<open>
  Modelled from the spec: the plain fetcher \<open>misc.DownloadFile\<close> and the comparison
  \<open>misc.FilesEqual\<close> are called by the handlers but are not among the sources. By the
  spec's section 4.2 the plain fetcher issues one unconditional GET and either publishes
  the whole body at the destination by the same atomic rename, or fails with a status and
  leaves the destination as it was. Which of the two happens, the body, the time the
  new file carries and the failure status are given from outside. \<open>FilesEqual\<close> contacts
  the upstream and answers whether its bytes equal the local file's; its answer and its
  error are given from outside.
\<close>

datatype plain_outcome = PlainOk string int | PlainErr nat

definition DownloadFile ::
  "plain_outcome \<Rightarrow> string \<Rightarrow> string \<Rightarrow> (string \<times> string) list \<Rightarrow> world \<Rightarrow> (nat \<times> error option) \<times> world" where
  "DownloadFile outcome url dest headers w =
     (let w1 = call_upstream (PlainGet url headers) w
      in case outcome of
           PlainErr st \<Rightarrow> ((st, Some ErrPlain), w1)
         | PlainOk b t \<Rightarrow>
             ((200, None), w1\<lparr>files := (files w1)(Clean dest \<mapsto> \<lparr>content = b, mtime = t\<rparr>)\<rparr>))"

definition FilesEqual :: "bool \<times> bool \<Rightarrow> string \<Rightarrow> string \<Rightarrow> world \<Rightarrow> (bool \<times> bool) \<times> world" where
  "FilesEqual answer url dest w = (answer, call_upstream (CompareGet url) w)"

section \<open>The request, the response and the configuration\<close>

text \<open>
  What a handler reads from \<open>echo.Context\<close>: the wildcard and named parameters, the
  query string, the scheme, the \<open>Host\<close>, the method and the \<open>Accept\<close> header of the
  request. The response is a status, a header map (empty when the handler starts) and a
  body. \<open>c.File\<close> answers with the file's bytes, or with 404 when the file cannot be
  opened; the headers \<open>http.ServeContent\<close> adds on its own are left out.
\<close>

record ctx =
  Param_star :: string
  Param_crate :: string
  Param_version :: string
  QueryString :: string
  Scheme_of :: string
  Host_of :: string
  Method :: string
  Accept :: string

record response =
  status :: nat
  headers :: header
  body :: string

definition String :: "header \<Rightarrow> nat \<Rightarrow> string \<Rightarrow> response" where
  "String rh c s =
     \<lparr>status = c, headers = Header_Set rh ''Content-Type'' ''text/plain; charset=UTF-8'', body = s\<rparr>"

definition Blob :: "header \<Rightarrow> nat \<Rightarrow> string \<Rightarrow> string \<Rightarrow> response" where
  "Blob rh c contentType b =
     \<lparr>status = c, headers = Header_Set rh ''Content-Type'' contentType, body = b\<rparr>"

definition Stream :: "header \<Rightarrow> nat \<Rightarrow> string \<Rightarrow> string \<Rightarrow> response" where
  "Stream rh c contentType b =
     \<lparr>status = c, headers = Header_Set rh ''Content-Type'' contentType, body = b\<rparr>"

definition NoContent :: "header \<Rightarrow> nat \<Rightarrow> response" where
  "NoContent rh c = \<lparr>status = c, headers = rh, body = []\<rparr>"

definition File :: "header \<Rightarrow> world \<Rightarrow> string \<Rightarrow> response" where
  "File rh w p =
     (case files w (Clean p) of
        None \<Rightarrow> \<lparr>status = 404, headers = Header_Set rh ''Content-Type'' ''application/json'',
                  body = ''Not Found''\<rparr>
      | Some f \<Rightarrow> \<lparr>status = 200, headers = rh, body = content f\<rparr>)"

record CargoSource =
  Base :: string
  Index :: string
  DL :: string
  API :: string

record ConfigFile =
  Dir :: string
  Cargo :: "string \<Rightarrow> CargoSource option"
  RUBYGEMS :: "string \<Rightarrow> string option"
  GOPROXY :: "string \<Rightarrow> string option"
  NPM :: "string \<Rightarrow> string option"

text \<open>Indexing a Go \<open>map[string]string\<close>: a missing key gives the empty string.\<close>

definition lookup_str :: "(string \<Rightarrow> string option) \<Rightarrow> string \<Rightarrow> string" where
  "lookup_str m k = (case m k of None \<Rightarrow> [] | Some v \<Rightarrow> v)"

text \<open>
  What the outside decides during one run of a handler: the outcomes inside the
  conditional fetcher, the outcome of the plain fetcher, the answer of \<open>FilesEqual\<close>,
  whether the handler's own \<open>MkdirAll\<close>, \<open>WriteFile\<close> and \<open>Chtimes\<close> succeed, and the
  clock (read once).
\<close>

record env =
  cond :: cond_env
  plain :: plain_outcome
  equal_answer :: "bool \<times> bool"
  handler_MkdirAll_ok :: bool
  handler_WriteFile_ok :: bool
  handler_Chtimes_ok :: bool
  now :: int

section \<open>pkg/handlers/cargo.go\<close>

definition cargoHopByHopHeaders :: "string list" where
  "cargoHopByHopHeaders =
     [''Connection'', ''Keep-Alive'', ''Proxy-Authenticate'', ''Proxy-Authorization'',
      ''Te'', ''Trailer'', ''Transfer-Encoding'', ''Upgrade'']"

record cargoEndpoints =
  ep_Index :: string
  ep_DL :: string
  ep_API :: string

datatype config_error = EmptyBase | InvalidBase

definition cargoEndpointsFromSource :: "golib \<Rightarrow> CargoSource \<Rightarrow> config_error + cargoEndpoints" where
  "cargoEndpointsFromSource lib source =
     (let trimmed = TrimSuffix (TrimSpace (Base source)) ''/''
      in if trimmed = [] then Inl EmptyBase
         else case url_Parse lib trimmed of
                None \<Rightarrow> Inl InvalidBase
              | Some parsed \<Rightarrow>
                  if Scheme parsed = [] \<or> Host parsed = [] then Inl InvalidBase
                  else Inr \<lparr>ep_Index = (if Index source \<noteq> [] then Index source else trimmed @ ''/index''),
                            ep_DL = (if DL source \<noteq> [] then DL source else trimmed @ ''/api/v1/crates''),
                            ep_API = (if API source \<noteq> [] then API source else trimmed @ ''/api'')\<rparr>)"

definition readCargoCacheMeta :: "golib \<Rightarrow> world \<Rightarrow> string \<Rightarrow> cacheMeta \<times> bool" where
  "readCargoCacheMeta lib w metaPath =
     (case files w (Clean (Clean metaPath)) of
        None \<Rightarrow> (\<lparr>ETag = [], LastModified = []\<rparr>, False)
      | Some f \<Rightarrow> json_Unmarshal_meta lib (content f))"

definition writeCargoCacheMeta :: "golib \<Rightarrow> env \<Rightarrow> string \<Rightarrow> cacheMeta \<Rightarrow> world \<Rightarrow> bool \<times> world" where
  "writeCargoCacheMeta lib e metaPath meta w =
     (let file = Clean metaPath; data = json_Marshal_meta lib meta
      in if \<not> handler_MkdirAll_ok e then (False, w)
         else
           let w1 = fs_do (OpMkdirAll (filepath_Dir file)) w
           in if \<not> handler_WriteFile_ok e then (False, w1)
              else (True, fs_do (OpWrite file data (now e)) w1))"

definition cargoFileExists :: "world \<Rightarrow> string \<Rightarrow> bool" where
  "cargoFileExists w filePath = os_Stat_ok w filePath"

definition copyCargoHeaders :: "header \<Rightarrow> header \<Rightarrow> header" where
  "copyCargoHeaders dst src =
     foldl (\<lambda>d (key, values).
              if CanonicalHeaderKey key \<in> set cargoHopByHopHeaders then d
              else foldl (\<lambda>d' value. Header_Add d' key value) d values)
       dst src"

text \<open>The wildcard of a request, normalised: slash in front, cleaned, slash removed.\<close>

definition cleaned_wildcard :: "string \<Rightarrow> string" where
  "cleaned_wildcard star = TrimPrefix (Clean (''/'' @ TrimPrefix star ''/'')) ''/''"

text \<open>\<open>CargoIndex\<close>, the branch for the generated \<open>config.json\<close>.\<close>

definition cargoConfigJSON :: "golib \<Rightarrow> env \<Rightarrow> ConfigFile \<Rightarrow> string \<Rightarrow> ctx \<Rightarrow> world \<Rightarrow> response \<times> world" where
  "cargoConfigJSON lib e cfg key c w =
     (let dest = Join [Dir cfg, ''cargo'', key, ''index'', ''config.json'']
      in if os_Stat_ok w dest
         then (File (Header_Set (Header_Add [] ''X-Cache-Status'' ''HIT'') ''Content-Type'' ''application/json'') w dest, w)
         else
           let baseURL = Scheme_of c @ ''://'' @ Host_of c;
               payload = \<lparr>cfg_DL = baseURL @ ''/cargo/'' @ key @ ''/crates/{crate}/{version}/download'',
                          cfg_API = baseURL @ ''/cargo/'' @ key @ ''/api'',
                          AuthRequired = False\<rparr>;
               data = json_Marshal_config lib payload
           in if \<not> handler_MkdirAll_ok e then (String [] 500 [], w)
              else
                let w1 = fs_do (OpMkdirAll (filepath_Dir dest)) w
                in if \<not> handler_WriteFile_ok e then (String [] 500 [], w1)
                   else
                     (Blob (Header_Set (Header_Add [] ''X-Cache-Status'' ''MISS'') ''Content-Type'' ''application/json'')
                        200 ''application/json'' data,
                      fs_do (OpWrite dest data (now e)) w1))"

text \<open>\<open>CargoIndex\<close>, the branch for a file of the sparse index.\<close>

definition cargoIndexFile ::
  "golib \<Rightarrow> env \<Rightarrow> ConfigFile \<Rightarrow> string \<Rightarrow> ctx \<Rightarrow> cargoEndpoints \<Rightarrow> string \<Rightarrow> world \<Rightarrow> response \<times> world" where
  "cargoIndexFile lib e cfg key c endpoints cleaned w =
     (let upstreamBase = TrimSuffix (ep_Index endpoints) ''/'';
          upstreamURL = upstreamBase @ ''/'' @ cleaned
                        @ (if QueryString c \<noteq> [] then ''?'' @ QueryString c else []);
          dest = Join [Dir cfg, ''cargo'', key, ''index'', cleaned];
          metaFile = dest @ ''.meta.json'';
          headers = [(''User-Agent'', ''cargo''), (''Accept'', ''application/json'')];
          cacheExists = cargoFileExists w dest;
          meta = (if cacheExists then fst (readCargoCacheMeta lib w metaFile)
                  else \<lparr>ETag = [], LastModified = []\<rparr>);
          (r, w1) = DownloadFileConditional lib (cond e) upstreamURL dest headers
                      (ETag meta) (LastModified meta) w
      in if err r \<noteq> None
         then if \<not> cacheExists
              then (String (Header_Add [] ''X-Cache-Status'' ''ERROR'') (code r) ''Please check logs...'', w1)
              else (File (Header_Set (Header_Add [] ''X-Cache-Status'' ''STALE'') ''Content-Type'' ''application/json'')
                      w1 dest, w1)
         else
           let rh = Header_Add [] ''X-Cache-Status'' (if notModified r then ''HIT'' else ''MISS'');
               w2 = (if newETag r \<noteq> [] \<or> newLastModified r \<noteq> []
                     then
                       let meta1 = (if newETag r \<noteq> [] then meta\<lparr>ETag := newETag r\<rparr> else meta);
                           meta2 = (if newLastModified r \<noteq> []
                                    then meta1\<lparr>LastModified := newLastModified r\<rparr> else meta1)
                       in snd (writeCargoCacheMeta lib e metaFile meta2 w1)
                     else w1)
           in (File (Header_Set rh ''Content-Type'' ''application/json'') w2 dest, w2))"

definition CargoIndex :: "golib \<Rightarrow> env \<Rightarrow> ConfigFile \<Rightarrow> string \<Rightarrow> ctx \<Rightarrow> world \<Rightarrow> response \<times> world" where
  "CargoIndex lib e cfg key c w =
     (case Cargo cfg key of
        None \<Rightarrow> (String [] 404 [], w)
      | Some source \<Rightarrow>
          if Base source = [] then (String [] 404 [], w)
          else case cargoEndpointsFromSource lib source of
                 Inl _ \<Rightarrow> (String [] 500 [], w)
               | Inr endpoints \<Rightarrow>
                   let cleaned = cleaned_wildcard (Param_star c)
                   in if cleaned = [] then (String [] 404 [], w)
                      else if cleaned = ''config.json'' then cargoConfigJSON lib e cfg key c w
                      else cargoIndexFile lib e cfg key c endpoints cleaned w)"

definition CargoCrateDownload :: "golib \<Rightarrow> env \<Rightarrow> ConfigFile \<Rightarrow> string \<Rightarrow> ctx \<Rightarrow> world \<Rightarrow> response \<times> world" where
  "CargoCrateDownload lib e cfg key c w =
     (case Cargo cfg key of
        None \<Rightarrow> (String [] 404 [], w)
      | Some source \<Rightarrow>
          if Base source = [] then (String [] 404 [], w)
          else case cargoEndpointsFromSource lib source of
                 Inl _ \<Rightarrow> (String [] 500 [], w)
               | Inr endpoints \<Rightarrow>
                   let crate = Param_crate c; version = Param_version c
                   in if crate = [] \<or> version = [] then (String [] 404 [], w)
                      else
                        let upstreamBase = TrimSuffix (ep_DL endpoints) ''/'';
                            upstreamURL = upstreamBase @ ''/'' @ crate @ ''/'' @ version @ ''/download'';
                            dest = Join [Dir cfg, ''cargo'', key, ''crates'', crate,
                                         crate @ ''-'' @ version @ ''.crate''];
                            headers = [(''User-Agent'', ''cargo'')]
                        in if os_Stat_ok w dest
                           then (File (Header_Set (Header_Add [] ''X-Cache-Status'' ''HIT'')
                                         ''Content-Type'' ''application/octet-stream'') w dest, w)
                           else
                             let ((st, er), w1) = DownloadFile (plain e) upstreamURL dest headers w
                             in if er \<noteq> None
                                then if \<not> os_Stat_ok w1 dest
                                     then (String (Header_Add [] ''X-Cache-Status'' ''ERROR'') st
                                             ''Please check logs...'', w1)
                                     else (File (Header_Set (Header_Add [] ''X-Cache-Status'' ''STALE'')
                                                   ''Content-Type'' ''application/octet-stream'') w1 dest, w1)
                                else (File (Header_Set (Header_Add [] ''X-Cache-Status'' ''MISS'')
                                              ''Content-Type'' ''application/octet-stream'') w1 dest, w1))"

text \<open>
  \<open>CargoAPIProxy\<close>. The upstream's answer to the proxied request is the \<open>Do_response\<close>
  of the environment; building the request fails when \<open>NewRequest_ok\<close> is false.
\<close>

definition CargoAPIProxy :: "golib \<Rightarrow> env \<Rightarrow> ConfigFile \<Rightarrow> string \<Rightarrow> ctx \<Rightarrow> world \<Rightarrow> response \<times> world" where
  "CargoAPIProxy lib e cfg key c w =
     (case Cargo cfg key of
        None \<Rightarrow> (String [] 404 [], w)
      | Some source \<Rightarrow>
          if Base source = [] then (String [] 404 [], w)
          else case cargoEndpointsFromSource lib source of
                 Inl _ \<Rightarrow> (String [] 500 [], w)
               | Inr endpoints \<Rightarrow>
                   if Method c \<noteq> ''GET'' \<and> Method c \<noteq> ''HEAD'' then (NoContent [] 405, w)
                   else
                     let cleaned = cleaned_wildcard (Param_star c);
                         upstreamBase = TrimSuffix (ep_API endpoints) ''/'';
                         url1 = (if cleaned \<noteq> [] then upstreamBase @ ''/'' @ cleaned else upstreamBase);
                         upstreamURL = (if QueryString c \<noteq> [] then url1 @ ''?'' @ QueryString c else url1)
                     in if \<not> NewRequest_ok (cond e) then (String [] 400 [], w)
                        else
                          let h0 = Header_Set [] ''User-Agent'' ''cargo'';
                              h1 = (if Accept c \<noteq> [] then Header_Set h0 ''Accept'' (Accept c) else h0);
                              w1 = call_upstream (ProxyCall (Method c) upstreamURL h1) w
                          in case Do_response (cond e) of
                               None \<Rightarrow> (String [] 502 [], w1)
                             | Some resp \<Rightarrow>
                                 let rh = copyCargoHeaders [] (Header resp);
                                     contentType = (if Header_Get (Header resp) ''Content-Type'' = []
                                                    then ''application/json''
                                                    else Header_Get (Header resp) ''Content-Type'')
                                 in if Method c = ''HEAD'' then (NoContent rh (StatusCode resp), w1)
                                    else (Stream rh (StatusCode resp) contentType (Body resp), w1))"

section \<open>pkg/handlers/npm.go\<close>

text \<open>Durations are in nanoseconds, as \<open>time.Duration\<close> is.\<close>

definition minute :: int where
  "minute = 60000000000"

definition hour :: int where
  "hour = 60 * minute"

definition npmSearchTTL :: int where
  "npmSearchTTL = 10 * minute"

definition isNpmTarballPath :: "string \<Rightarrow> bool" where
  "isNpmTarballPath p = (Contains p ''/-/'' \<and> (HasSuffix p ''.tgz'' \<or> HasSuffix p ''.tar.gz''))"

definition isNpmSearchPath :: "string \<Rightarrow> bool" where
  "isNpmSearchPath p = (TrimSuffix p ''/'' = ''-/v1/search'')"

definition npmAcceptHeader :: "golib \<Rightarrow> string \<Rightarrow> string \<times> string" where
  "npmAcceptHeader lib accept =
     (if Contains accept ''application/vnd.npm.install-v1+json'' \<or> accept = [] \<or> Contains accept ''*/*''
      then (''corgi'', ''application/vnd.npm.install-v1+json'')
      else if Contains accept ''application/json'' then (''full'', ''application/json'')
      else (''accept-'' @ take 16 (sha256_hex lib accept), accept))"

definition npmEncodePackageName :: "string \<Rightarrow> string" where
  "npmEncodePackageName name =
     (if HasPrefix name ''@'' \<and> Contains name ''/'' then ReplaceSlash name else name)"

text \<open>
  \<open>rewriteNpmTarballs\<close> changes the maps it is given in place and returns whether it
  changed one; the model returns the new document with the flag. The loop over the
  versions visits every entry once, and each entry is rewritten on its own.
\<close>

definition rewriteTarball :: "golib \<Rightarrow> string \<Rightarrow> string \<Rightarrow> json \<Rightarrow> json \<times> bool" where
  "rewriteTarball lib baseURL key v =
     (case v of
        JObj versionInfo \<Rightarrow>
          (case map_of versionInfo ''dist'' of
             Some (JObj dist) \<Rightarrow>
               (case map_of dist ''tarball'' of
                  Some (JStr tarballURL) \<Rightarrow>
                    if tarballURL = [] then (v, False)
                    else (case url_Parse lib tarballURL of
                            None \<Rightarrow> (v, False)
                          | Some parsed \<Rightarrow>
                              if Path parsed = [] then (v, False)
                              else
                                let rewritePath = Path parsed
                                      @ (if RawQuery parsed \<noteq> [] then ''?'' @ RawQuery parsed else [])
                                in (JObj (assoc_set ''dist''
                                            (JObj (assoc_set ''tarball''
                                                     (JStr (baseURL @ ''/npm/'' @ key @ rewritePath)) dist))
                                            versionInfo),
                                    True))
                | _ \<Rightarrow> (v, False))
           | _ \<Rightarrow> (v, False))
      | _ \<Rightarrow> (v, False))"

definition rewriteNpmTarballs :: "golib \<Rightarrow> packument \<Rightarrow> string \<Rightarrow> string \<Rightarrow> packument \<times> bool" where
  "rewriteNpmTarballs lib packument baseURL key =
     (case packument of
        None \<Rightarrow> (packument, False)
      | Some doc \<Rightarrow>
          (case map_of doc ''versions'' of
             Some (JObj versions) \<Rightarrow>
               let rewritten = map (\<lambda>(ver, v). (ver, rewriteTarball lib baseURL key v)) versions
               in (Some (assoc_set ''versions'' (JObj (map (\<lambda>(ver, r). (ver, fst r)) rewritten)) doc),
                   list_ex (\<lambda>(ver, r). snd r) rewritten)
           | _ \<Rightarrow> (packument, False)))"

definition readNpmCacheMeta :: "golib \<Rightarrow> world \<Rightarrow> string \<Rightarrow> cacheMeta \<times> bool" where
  "readNpmCacheMeta lib w metaPath =
     (case files w (Clean (Clean metaPath)) of
        None \<Rightarrow> (\<lparr>ETag = [], LastModified = []\<rparr>, False)
      | Some f \<Rightarrow> json_Unmarshal_meta lib (content f))"

definition writeNpmCacheMeta :: "golib \<Rightarrow> env \<Rightarrow> string \<Rightarrow> cacheMeta \<Rightarrow> world \<Rightarrow> bool \<times> world" where
  "writeNpmCacheMeta lib e metaPath meta w =
     (let file = Clean metaPath; data = json_Marshal_meta lib meta
      in if \<not> handler_MkdirAll_ok e then (False, w)
         else
           let w1 = fs_do (OpMkdirAll (filepath_Dir file)) w
           in if \<not> handler_WriteFile_ok e then (False, w1)
              else (True, fs_do (OpWrite file data (now e)) w1))"

definition fileExists :: "world \<Rightarrow> string \<Rightarrow> bool" where
  "fileExists w filePath = os_Stat_ok w filePath"

text \<open>The SHA-256 of the query string in hexadecimal, or the empty string for no query.\<close>

definition queryHash_of :: "golib \<Rightarrow> string \<Rightarrow> string" where
  "queryHash_of lib query = (if query \<noteq> [] then sha256_hex lib query else [])"

definition npmPackageName :: "golib \<Rightarrow> string \<Rightarrow> string" where
  "npmPackageName lib rawPath =
     (let decoded = (case url_PathUnescape lib rawPath of None \<Rightarrow> rawPath | Some d \<Rightarrow> d);
          decodedPath = Clean (''/'' @ decoded)
      in TrimSuffix (TrimPrefix decodedPath ''/'') ''/'')"

definition npmDataFile :: "golib \<Rightarrow> ConfigFile \<Rightarrow> string \<Rightarrow> ctx \<Rightarrow> string \<Rightarrow> string" where
  "npmDataFile lib cfg key c packageName =
     (let queryHash = queryHash_of lib (QueryString c);
          filenameBase = ''packument.'' @ fst (npmAcceptHeader lib (Accept c))
                         @ (if queryHash \<noteq> [] then ''.'' @ queryHash else []);
          cacheDir = Join [Dir cfg, ''npm'', key, ''metadata'', packageName]
      in Join [cacheDir, filenameBase @ ''.json''])"

definition npmMetaFile :: "golib \<Rightarrow> ConfigFile \<Rightarrow> string \<Rightarrow> ctx \<Rightarrow> string \<Rightarrow> string" where
  "npmMetaFile lib cfg key c packageName =
     (let queryHash = queryHash_of lib (QueryString c);
          filenameBase = ''packument.'' @ fst (npmAcceptHeader lib (Accept c))
                         @ (if queryHash \<noteq> [] then ''.'' @ queryHash else []);
          cacheDir = Join [Dir cfg, ''npm'', key, ''metadata'', packageName]
      in Join [cacheDir, filenameBase @ ''.meta.json''])"

text \<open>The end of \<open>handleNpmMetadata\<close>: read the cached document, rewrite it, answer.\<close>

definition servePackument :: "golib \<Rightarrow> string \<Rightarrow> ctx \<Rightarrow> header \<Rightarrow> string \<Rightarrow> string \<Rightarrow> world \<Rightarrow> response" where
  "servePackument lib key c rh upstreamAccept dataFile w =
     (case files w (Clean (Clean dataFile)) of
        None \<Rightarrow> String rh 400 ''Metadata error''
      | Some f \<Rightarrow>
          (case json_Unmarshal_packument lib (content f) of
             None \<Rightarrow> String rh 400 ''Metadata error''
           | Some packument \<Rightarrow>
               let baseURL = Scheme_of c @ ''://'' @ Host_of c;
                   updated = json_Marshal_packument lib
                               (fst (rewriteNpmTarballs lib packument baseURL key))
               in Blob rh 200 upstreamAccept updated))"

definition handleNpmMetadata ::
  "golib \<Rightarrow> env \<Rightarrow> ConfigFile \<Rightarrow> string \<Rightarrow> ctx \<Rightarrow> string \<Rightarrow> world \<Rightarrow> response \<times> world" where
  "handleNpmMetadata lib e cfg key c rawPath w =
     (let packageName = npmPackageName lib rawPath
      in if packageName = [] then (String [] 404 [], w)
         else
           let upstreamAccept = snd (npmAcceptHeader lib (Accept c));
               query = QueryString c;
               dataFile = npmDataFile lib cfg key c packageName;
               metaFile = npmMetaFile lib cfg key c packageName;
               upstreamBase = TrimSuffix (lookup_str (NPM cfg) key) ''/'';
               upstreamURL = upstreamBase @ ''/'' @ npmEncodePackageName packageName
                             @ (if query \<noteq> [] then ''?'' @ query else []);
               headers = [(''User-Agent'', ''npm''), (''Accept'', upstreamAccept)];
               cacheExists = fileExists w dataFile;
               meta = (if cacheExists then fst (readNpmCacheMeta lib w metaFile)
                       else \<lparr>ETag = [], LastModified = []\<rparr>);
               (r, w1) = DownloadFileConditional lib (cond e) upstreamURL dataFile headers
                           (ETag meta) (LastModified meta) w
           in if err r \<noteq> None
              then if \<not> cacheExists
                   then (String (Header_Add [] ''X-Cache-Status'' ''ERROR'') (code r) ''Please check logs...'', w1)
                   else (servePackument lib key c (Header_Add [] ''X-Cache-Status'' ''STALE'')
                           upstreamAccept dataFile w1, w1)
              else
                let rh = Header_Add [] ''X-Cache-Status'' (if notModified r then ''HIT'' else ''MISS'');
                    w2 = (if newETag r \<noteq> [] \<or> newLastModified r \<noteq> []
                          then
                            let meta1 = (if newETag r \<noteq> [] then meta\<lparr>ETag := newETag r\<rparr> else meta);
                                meta2 = (if newLastModified r \<noteq> []
                                         then meta1\<lparr>LastModified := newLastModified r\<rparr> else meta1)
                            in snd (writeNpmCacheMeta lib e metaFile meta2 w1)
                          else w1)
                in (servePackument lib key c rh upstreamAccept dataFile w2, w2))"

definition handleNpmTarball :: "env \<Rightarrow> ConfigFile \<Rightarrow> string \<Rightarrow> ctx \<Rightarrow> string \<Rightarrow> world \<Rightarrow> response \<times> world" where
  "handleNpmTarball e cfg key c rawPath w =
     (let upstreamBase = TrimSuffix (lookup_str (NPM cfg) key) ''/'';
          upstreamURL = upstreamBase @ ''/'' @ rawPath;
          dest = Join [Dir cfg, ''npm'', key, ''tarballs'', rawPath];
          headers = [(''User-Agent'', ''npm'')]
      in if os_Stat_ok w dest
         then (File (Header_Add [] ''X-Cache-Status'' ''HIT'') w dest, w)
         else
           let ((st, er), w1) = DownloadFile (plain e) upstreamURL dest headers w
           in if er \<noteq> None
              then if \<not> os_Stat_ok w1 dest
                   then (String (Header_Add [] ''X-Cache-Status'' ''ERROR'') st ''Please check logs...'', w1)
                   else (File (Header_Add [] ''X-Cache-Status'' ''STALE'') w1 dest, w1)
              else (File (Header_Add [] ''X-Cache-Status'' ''MISS'') w1 dest, w1))"

definition handleNpmSearch :: "golib \<Rightarrow> env \<Rightarrow> ConfigFile \<Rightarrow> string \<Rightarrow> ctx \<Rightarrow> world \<Rightarrow> response \<times> world" where
  "handleNpmSearch lib e cfg key c w =
     (let query = QueryString c;
          hash = (if query \<noteq> [] then sha256_hex lib query else ''empty'');
          dest = Join [Dir cfg, ''npm'', key, ''search'', hash @ ''.json''];
          fresh = (case files w (Clean dest) of
                     None \<Rightarrow> False
                   | Some info \<Rightarrow> now e - mtime info < npmSearchTTL)
      in if fresh
         then (File (Header_Set (Header_Add [] ''X-Cache-Status'' ''HIT'') ''Content-Type'' ''application/json'')
                 w dest, w)
         else
           let upstreamBase = TrimSuffix (lookup_str (NPM cfg) key) ''/'';
               upstreamURL = upstreamBase @ ''/-/v1/search'' @ (if query \<noteq> [] then ''?'' @ query else []);
               headers = [(''User-Agent'', ''npm''), (''Accept'', ''application/json'')];
               ((st, er), w1) = DownloadFile (plain e) upstreamURL dest headers w
           in if er \<noteq> None
              then if \<not> os_Stat_ok w1 dest
                   then (String (Header_Add [] ''X-Cache-Status'' ''ERROR'') st ''Please check logs...'', w1)
                   else (File (Header_Set (Header_Add [] ''X-Cache-Status'' ''STALE'')
                                 ''Content-Type'' ''application/json'') w1 dest, w1)
              else
                let w2 = (if handler_Chtimes_ok e then fs_do (OpChtimes dest (now e)) w1 else w1)
                in (File (Header_Set (Header_Add [] ''X-Cache-Status'' ''MISS'')
                            ''Content-Type'' ''application/json'') w2 dest, w2))"

definition NpmProxy :: "golib \<Rightarrow> env \<Rightarrow> ConfigFile \<Rightarrow> string \<Rightarrow> ctx \<Rightarrow> world \<Rightarrow> response \<times> world" where
  "NpmProxy lib e cfg key c w =
     (let rawPath = TrimSuffix (TrimPrefix (Param_star c) ''/'') ''/''
      in if rawPath = [] then (String [] 404 [], w)
         else
           let cleaned = TrimPrefix (Clean (''/'' @ rawPath)) ''/''
           in if cleaned = [] then (String [] 404 [], w)
              else if isNpmSearchPath cleaned then handleNpmSearch lib e cfg key c w
              else if isNpmTarballPath cleaned then handleNpmTarball e cfg key c cleaned w
              else handleNpmMetadata lib e cfg key c cleaned w)"

section \<open>pkg/handlers/goproxy.go\<close>

text \<open>
  \<open>downloadAndCacheFile\<close> either writes the whole response itself (the fetch failed and
  there is no local file: \<open>c.String\<close> with the fetcher's status) or adds the cache
  status to the header and leaves the answer to its caller. In the first case its caller
  goes on to \<open>c.File\<close>, which finds no file and cannot change the response that is
  already written; the written response is the answer.
\<close>

definition downloadAndCacheFile :: "env \<Rightarrow> string \<Rightarrow> string \<Rightarrow> world \<Rightarrow> (response option \<times> header) \<times> world" where
  "downloadAndCacheFile e url dest w =
     (let headers = [(''User-Agent'', ''go/goproxy'')];
          ((st, er), w1) = DownloadFile (plain e) url dest headers w
      in if er \<noteq> None
         then if \<not> os_Stat_ok w1 dest then ((Some (String [] st ''410 Gone\<newline>''), []), w1)
              else ((None, Header_Add [] ''X-Cache-Status'' ''HIT''), w1)
         else ((None, Header_Add [] ''X-Cache-Status'' ''MISS''), w1))"

definition GoProxyList :: "env \<Rightarrow> ConfigFile \<Rightarrow> string \<Rightarrow> ctx \<Rightarrow> world \<Rightarrow> response \<times> world" where
  "GoProxyList e cfg key c w =
     (let module = TrimSuffix (Param_star c) ''/@v/list'';
          url = lookup_str (GOPROXY cfg) key @ ''/'' @ module @ ''/@v/list'';
          dest = Dir cfg @ ''/goproxy/'' @ key @ ''/'' @ module @ ''/@v/list'';
          headers = [(''User-Agent'', ''go/goproxy'')];
          ((st, er), w1) = DownloadFile (plain e) url dest headers w
      in if er \<noteq> None \<and> \<not> os_Stat_ok w1 dest then (String [] st ''410 Gone\<newline>'', w1)
         else
           let rh = Header_Add [] ''X-Cache-Status'' (if er \<noteq> None then ''HIT'' else ''MISS'')
           in (File (Header_Set rh ''Content-Type'' ''text/plain; charset=utf-8'') w1 dest, w1))"

definition GoProxyInfo :: "env \<Rightarrow> ConfigFile \<Rightarrow> string \<Rightarrow> ctx \<Rightarrow> world \<Rightarrow> response \<times> world" where
  "GoProxyInfo e cfg key c w =
     (case Split (Param_star c) ''/@v/'' of
        [modulePath, rest] \<Rightarrow>
          let version = TrimSuffix rest ''.info'';
              url = lookup_str (GOPROXY cfg) key @ ''/'' @ modulePath @ ''/@v/'' @ version @ ''.info'';
              dest = Dir cfg @ ''/goproxy/'' @ key @ ''/'' @ modulePath @ ''/@v/'' @ version @ ''.info'';
              ((written, rh), w1) = downloadAndCacheFile e url dest w
          in (case written of
                Some r \<Rightarrow> (r, w1)
              | None \<Rightarrow> (File (Header_Set rh ''Content-Type'' ''application/json'') w1 dest, w1))
      | _ \<Rightarrow> (String [] 400 ''invalid path'', w))"

definition GoProxyMod :: "env \<Rightarrow> ConfigFile \<Rightarrow> string \<Rightarrow> ctx \<Rightarrow> world \<Rightarrow> response \<times> world" where
  "GoProxyMod e cfg key c w =
     (case Split (Param_star c) ''/@v/'' of
        [modulePath, rest] \<Rightarrow>
          let version = TrimSuffix rest ''.mod'';
              url = lookup_str (GOPROXY cfg) key @ ''/'' @ modulePath @ ''/@v/'' @ version @ ''.mod'';
              dest = Dir cfg @ ''/goproxy/'' @ key @ ''/'' @ modulePath @ ''/@v/'' @ version @ ''.mod'';
              ((written, rh), w1) = downloadAndCacheFile e url dest w
          in (case written of
                Some r \<Rightarrow> (r, w1)
              | None \<Rightarrow> (File (Header_Set rh ''Content-Type'' ''text/plain; charset=utf-8'') w1 dest, w1))
      | _ \<Rightarrow> (String [] 400 ''invalid path'', w))"

definition GoProxyZip :: "env \<Rightarrow> ConfigFile \<Rightarrow> string \<Rightarrow> ctx \<Rightarrow> world \<Rightarrow> response \<times> world" where
  "GoProxyZip e cfg key c w =
     (case Split (Param_star c) ''/@v/'' of
        [modulePath, rest] \<Rightarrow>
          let version = TrimSuffix rest ''.zip'';
              url = lookup_str (GOPROXY cfg) key @ ''/'' @ modulePath @ ''/@v/'' @ version @ ''.zip'';
              dest = Dir cfg @ ''/goproxy/'' @ key @ ''/'' @ modulePath @ ''/@v/'' @ version @ ''.zip'';
              headers = [(''User-Agent'', ''go/goproxy'')]
          in if os_Stat_ok w dest
             then (File (Header_Set (Header_Add [] ''X-Cache-Status'' ''HIT'') ''Content-Type'' ''application/zip'')
                     w dest, w)
             else
               let ((st, er), w1) = DownloadFile (plain e) url dest headers w
               in if er \<noteq> None \<and> \<not> os_Stat_ok w1 dest then (String [] st ''410 Gone\<newline>'', w1)
                  else
                    let rh = (if er \<noteq> None then [] else Header_Add [] ''X-Cache-Status'' ''MISS'')
                    in (File (Header_Set rh ''Content-Type'' ''application/zip'') w1 dest, w1)
      | _ \<Rightarrow> (String [] 400 ''invalid path'', w))"

definition GoProxyLatest :: "env \<Rightarrow> ConfigFile \<Rightarrow> string \<Rightarrow> ctx \<Rightarrow> world \<Rightarrow> response \<times> world" where
  "GoProxyLatest e cfg key c w =
     (let module = TrimSuffix (Param_star c) ''/@latest'';
          url = lookup_str (GOPROXY cfg) key @ ''/'' @ module @ ''/@latest'';
          dest = Dir cfg @ ''/goproxy/'' @ key @ ''/'' @ module @ ''/@latest'';
          headers = [(''User-Agent'', ''go/goproxy'')];
          cacheValid = (case files w (Clean dest) of
                          None \<Rightarrow> False
                        | Some fileInfo \<Rightarrow> now e - hour < mtime fileInfo)
      in if \<not> cacheValid
         then
           let ((st, er), w1) = DownloadFile (plain e) url dest headers w
           in if er \<noteq> None \<and> \<not> os_Stat_ok w1 dest then (String [] st ''410 Gone\<newline>'', w1)
              else
                let rh = Header_Add [] ''X-Cache-Status'' (if er \<noteq> None then ''HIT'' else ''MISS'')
                in (File (Header_Set rh ''Content-Type'' ''application/json'') w1 dest, w1)
         else (File (Header_Set (Header_Add [] ''X-Cache-Status'' ''HIT'') ''Content-Type'' ''application/json'')
                 w dest, w))"

section \<open>pkg/handlers/rubygems.go\<close>

definition rubygemsCachePath :: "golib \<Rightarrow> ctx \<Rightarrow> string" where
  "rubygemsCachePath lib c =
     (let upstreamPath = cleaned_wildcard (Param_star c);
          cacheKey = (if upstreamPath = [] \<or> upstreamPath = ''.'' then ''__root'' else upstreamPath)
      in if QueryString c \<noteq> [] then Join [''_query'', sha256_hex lib (QueryString c), cacheKey]
         else cacheKey)"

definition RubyGems :: "golib \<Rightarrow> env \<Rightarrow> ConfigFile \<Rightarrow> string \<Rightarrow> ctx \<Rightarrow> world \<Rightarrow> response \<times> world" where
  "RubyGems lib e cfg key c w =
     (let cleanedPath = cleaned_wildcard (Param_star c);
          upstreamPath = (if cleanedPath = [] \<or> cleanedPath = ''.'' then [] else cleanedPath);
          query = QueryString c;
          cachePath = rubygemsCachePath lib c;
          upstreamBase = TrimSuffix (lookup_str (RUBYGEMS cfg) key) ''/'';
          url = upstreamBase @ ''/'' @ upstreamPath @ (if query \<noteq> [] then ''?'' @ query else []);
          dest = Dir cfg @ ''/rubygems/'' @ key @ ''/'' @ cachePath;
          headers = [(''User-Agent'', ''rubygems'')];
          cacheExists = os_Stat_ok w dest;
          isGemPath = (HasPrefix upstreamPath ''gems/'' \<and> HasSuffix upstreamPath ''.gem'')
      in if cacheExists \<and> isGemPath then (File (Header_Add [] ''X-Cache-Status'' ''HIT'') w dest, w)
         else
           let ((equal, _), w0) = (if cacheExists then FilesEqual (equal_answer e) url dest w
                                   else ((False, False), w))
           in if cacheExists \<and> equal then (File (Header_Add [] ''X-Cache-Status'' ''HIT'') w0 dest, w0)
              else
                let ((st, er), w1) = DownloadFile (plain e) url dest headers w0
                in if er \<noteq> None
                   then if \<not> os_Stat_ok w1 dest
                        then (String (Header_Add [] ''X-Cache-Status'' ''ERROR'') st ''Please check logs...'', w1)
                        else (File (Header_Add [] ''X-Cache-Status'' ''STALE'') w1 dest, w1)
                   else (File (Header_Add [] ''X-Cache-Status'' (if cacheExists then ''EXPIRED'' else ''MISS''))
                           w1 dest, w1))"

section \<open>Reading a run\<close>

text \<open>The file-system operations a run added to the log, and the upstream calls it added.\<close>

definition new_ops :: "world \<Rightarrow> world \<Rightarrow> fs_op list" where
  "new_ops w w' = drop (length (fs_log w)) (fs_log w')"

definition new_calls :: "world \<Rightarrow> world \<Rightarrow> upstream_call list" where
  "new_calls w w' = drop (length (upstream_log w)) (upstream_log w')"

definition cache_status :: "response \<Rightarrow> string list" where
  "cache_status r = Header_Values (headers r) ''X-Cache-Status''"

section \<open>A concrete library, configuration and requests\<close>

text \<open>
  Instances for the examples below. \<open>example_url_Parse\<close> agrees with \<open>url.Parse\<close> on
  URLs of the form \<open>scheme://host/path?query\<close> without escapes, user info or fragment;
  the JSON functions agree with \<open>encoding/json\<close> on strings that need no escaping; the
  digest is a fixed string of 64 hexadecimal digits.
\<close>

definition quote :: string where
  "quote = [CHR 0x22]"

definition example_url_Parse :: "string \<Rightarrow> URL option" where
  "example_url_Parse s =
     (case Split s ''://'' of
        [sch, rest] \<Rightarrow>
          let hp = takeWhile (\<lambda>c. c \<noteq> CHR ''?'') rest
          in Some \<lparr>Scheme = sch, Host = takeWhile (\<lambda>c. c \<noteq> CHR ''/'') hp,
                   Path = dropWhile (\<lambda>c. c \<noteq> CHR ''/'') hp,
                   RawQuery = drop (length hp + 1) rest\<rparr>
      | _ \<Rightarrow> None)"

definition example_Marshal_meta :: "cacheMeta \<Rightarrow> string" where
  "example_Marshal_meta m =
     ''{'' @ quote @ ''etag'' @ quote @ '':'' @ quote @ ETag m @ quote @ '',''
       @ quote @ ''last_modified'' @ quote @ '':'' @ quote @ LastModified m @ quote @ ''}''"

definition example_Unmarshal_meta :: "string \<Rightarrow> cacheMeta \<times> bool" where
  "example_Unmarshal_meta s =
     (case Split s quote of
        [a, b, c, e, d, f, g, l, h] \<Rightarrow> (\<lparr>ETag = e, LastModified = l\<rparr>, True)
      | _ \<Rightarrow> (\<lparr>ETag = [], LastModified = []\<rparr>, False))"

definition example_Marshal_config :: "cargoIndexConfig \<Rightarrow> string" where
  "example_Marshal_config p =
     ''{'' @ quote @ ''dl'' @ quote @ '':'' @ quote @ cfg_DL p @ quote @ '',''
       @ quote @ ''api'' @ quote @ '':'' @ quote @ cfg_API p @ quote @ ''}''"

definition example_packument :: packument where
  "example_packument =
     Some [(''name'', JStr ''pkg''),
           (''versions'',
            JObj [(''1.0.0'',
                   JObj [(''name'', JStr ''pkg''),
                         (''dist'', JObj [(''shasum'', JStr ''abc''),
                                          (''tarball'', JStr ''https://registry.npmjs.org/pkg/-/pkg-1.0.0.tgz'')])]),
                  (''1.0.1'', JObj [(''dist'', JObj [(''tarball'', JStr [])])])])]"

definition example_Unmarshal_packument :: "string \<Rightarrow> packument option" where
  "example_Unmarshal_packument s = (if s = ''PACKUMENT'' then Some example_packument else None)"

definition example_Marshal_packument :: "packument \<Rightarrow> string" where
  "example_Marshal_packument p = (if p = example_packument then ''PACKUMENT'' else ''REWRITTEN'')"

definition example_lib :: golib where
  "example_lib =
     \<lparr>sha256_hex = (\<lambda>s. replicate 64 (CHR ''0'')),
      url_Parse = example_url_Parse,
      url_PathUnescape = Some,
      time_Parse = (\<lambda>s. if s = ''Thu, 01 Jan 1970 00:00:07 GMT'' then Some 7000000000 else None),
      json_Marshal_meta = example_Marshal_meta,
      json_Unmarshal_meta = example_Unmarshal_meta,
      json_Marshal_config = example_Marshal_config,
      json_Unmarshal_packument = example_Unmarshal_packument,
      json_Marshal_packument = example_Marshal_packument\<rparr>"

definition example_response :: http_response where
  "example_response =
     \<lparr>StatusCode = 200,
      Header = [(''Etag'', [''abc'']), (''Last-Modified'', [''Thu, 01 Jan 1970 00:00:07 GMT'']),
                (''Connection'', [''keep-alive'']), (''X-Request-Id'', [''r1''])],
      Body = ''hello''\<rparr>"

definition example_cond :: cond_env where
  "example_cond =
     \<lparr>NewRequest_ok = True, Do_response = Some example_response, MkdirAll_ok = True,
      rand_Int = Some 42, UnixNano = 1700, Create_ok = True, Copy_fail_at = None,
      Stat_ok = True, Chtimes_ok = True, Close_ok = True, Rename_ok = True\<rparr>"

definition example_env :: env where
  "example_env =
     \<lparr>cond = example_cond, plain = PlainOk ''payload'' 1700, equal_answer = (False, False),
      handler_MkdirAll_ok = True, handler_WriteFile_ok = True, handler_Chtimes_ok = True,
      now = 5000\<rparr>"

definition example_cfg :: ConfigFile where
  "example_cfg =
     \<lparr>Dir = ''/data'',
      Cargo = [''crates.io'' \<mapsto> \<lparr>Base = ''https://crates.io'', Index = ''https://index.crates.io'',
                                  DL = [], API = []\<rparr>],
      RUBYGEMS = [''rubygems'' \<mapsto> ''https://rubygems.org''],
      GOPROXY = [''golang'' \<mapsto> ''https://proxy.golang.org''],
      NPM = [''npmjs'' \<mapsto> ''https://registry.npmjs.org'']\<rparr>"

definition example_ctx :: ctx where
  "example_ctx =
     \<lparr>Param_star = ''se/rd/serde'', Param_crate = ''serde'', Param_version = ''1.0.0'',
      QueryString = [], Scheme_of = ''http'', Host_of = ''h:6587'', Method = ''GET'', Accept = []\<rparr>"

definition empty_world :: world where
  "empty_world = \<lparr>files = Map.empty, fs_log = [], upstream_log = []\<rparr>"

definition example_fetch :: "cond_result \<times> world" where
  "example_fetch = DownloadFileConditional example_lib example_cond ''https://index.crates.io/se/rd/serde''
       ''/data/cargo/crates.io/index/se/rd/serde'' [(''User-Agent'', ''cargo'')] [] [] empty_world"
text \<open>
  The shape of a cleaned path: the elements that remain are plain, after some leading
  \<open>..\<close> elements when the path is not rooted. \<open>stack_ok\<close> is the same shape for the
  reversed stack.
\<close>

definition canonical :: "bool \<Rightarrow> string list \<Rightarrow> bool" where
  "canonical r es = (\<exists>k ps. es = replicate k ''..'' @ ps \<and> (\<forall>e\<in>set ps. plain_element e) \<and> (r \<longrightarrow> k = 0))"

definition stack_ok :: "bool \<Rightarrow> string list \<Rightarrow> bool" where
  "stack_ok r st = (\<exists>k ps. st = ps @ replicate k ''..'' \<and> (\<forall>e\<in>set ps. plain_element e) \<and> (r \<longrightarrow> k = 0))"

section \<open>Lemmas on paths\<close>

lemma split_slash_nonempty: "split_slash s \<noteq> []"
  by (induction s) (auto split: list.splits)

lemma split_slash_no_slash: "e \<in> set (split_slash s) \<Longrightarrow> CHR ''/'' \<notin> set e"
  by (induction s arbitrary: e) (auto split: list.splits if_splits)

lemma split_slash_append:
  "split_slash (a @ CHR ''/'' # b) = split_slash a @ split_slash b"
  by (induction a) (auto split: list.splits simp: split_slash_nonempty)

lemma split_slash_single: "CHR ''/'' \<notin> set e \<Longrightarrow> split_slash e = [e]"
  by (induction e) auto

lemma split_join_slash:
  "es \<noteq> [] \<Longrightarrow> \<forall>e\<in>set es. CHR ''/'' \<notin> set e \<Longrightarrow> split_slash (join_slash es) = es"
proof (induction es rule: join_slash.induct)
  case 1
  then show ?case by simp
next
  case (2 x)
  then show ?case by (simp add: split_slash_single)
next
  case (3 x y r)
  have "split_slash (x @ CHR ''/'' # join_slash (y # r)) = split_slash x @ split_slash (join_slash (y # r))"
    by (rule split_slash_append)
  with 3 show ?case by (simp add: split_slash_single)
qed

lemma foldl_push_plain:
  "\<forall>e\<in>set bs. plain_element e \<Longrightarrow> foldl (clean_step r) st bs = rev bs @ st"
  by (induction bs arbitrary: st) (auto simp: plain_element_def)

lemma foldl_push_dotdot:
  "foldl (clean_step False) (replicate k ''..'') (replicate j ''..'') = replicate (j + k) ''..''"
proof (induction j arbitrary: k)
  case 0
  then show ?case by simp
next
  case (Suc j)
  have "clean_step False (replicate k ''..'') ''..'' = replicate (Suc k) ''..''"
    by (cases k) auto
  then show ?case using Suc [of "Suc k"] by simp
qed

lemma stack_ok_step:
  assumes "stack_ok r st" and "CHR ''/'' \<notin> set c"
  shows "stack_ok r (clean_step r st c)"
proof -
  from assms(1) obtain k ps where st: "st = ps @ replicate k ''..''"
    and ps: "\<forall>e\<in>set ps. plain_element e" and r: "r \<longrightarrow> k = 0"
    unfolding stack_ok_def by blast
  consider "c = [] \<or> c = ''.''" | "c = ''..''" | "plain_element c"
    using assms(2) unfolding plain_element_def by blast
  then show ?thesis
  proof cases
    case 1
    then show ?thesis using assms(1) by auto
  next
    case 2
    show ?thesis
    proof (cases ps)
      case Nil
      show ?thesis
      proof (cases k)
        case 0
        with Nil st 2 show ?thesis
          unfolding stack_ok_def
          by (cases r) (auto intro: exI [of _ "Suc 0"] exI [of _ 0])
      next
        case (Suc k')
        with Nil st 2 r have "clean_step r st c = replicate (Suc (Suc k')) ''..''" by auto
        moreover have "\<not> r" using r Suc by auto
        ultimately show ?thesis unfolding stack_ok_def
          by (intro exI [of _ "Suc (Suc k')"] exI [of _ "[]"]) simp
      qed
    next
      case (Cons t ts)
      with ps have "t \<noteq> ''..''" by (auto simp: plain_element_def)
      with Cons st 2 have "clean_step r st c = ts @ replicate k ''..''" by simp
      with ps r Cons show ?thesis unfolding stack_ok_def by auto
    qed
  next
    case 3
    then have "clean_step r st c = (c # ps) @ replicate k ''..''"
      using st by (auto simp: plain_element_def)
    with 3 ps r show ?thesis unfolding stack_ok_def by (metis set_ConsD)
  qed
qed

lemma stack_ok_foldl:
  "stack_ok r st \<Longrightarrow> \<forall>c\<in>set cs. CHR ''/'' \<notin> set c \<Longrightarrow> stack_ok r (foldl (clean_step r) st cs)"
  by (induction cs arbitrary: st) (simp_all add: stack_ok_step del: clean_step.simps)

lemma canonical_elements: "canonical (is_rooted p) (elements p)"
proof -
  have "stack_ok (is_rooted p) []" unfolding stack_ok_def by simp
  then have "stack_ok (is_rooted p) (foldl (clean_step (is_rooted p)) [] (split_slash p))"
    by (rule stack_ok_foldl) (auto dest: split_slash_no_slash)
  then obtain k ps where "foldl (clean_step (is_rooted p)) [] (split_slash p) = ps @ replicate k ''..''"
    and "\<forall>e\<in>set ps. plain_element e" and "is_rooted p \<longrightarrow> k = 0"
    unfolding stack_ok_def by blast
  then show ?thesis unfolding canonical_def elements_def
    by (intro exI [of _ k] exI [of _ "rev ps"]) simp
qed

lemma render_rooted: "is_rooted (render r es) = r" if "canonical r es"
proof (cases r)
  case True
  then show ?thesis by (simp add: render_def is_rooted_def)
next
  case False
  show ?thesis
  proof (cases es)
    case Nil
    with False show ?thesis by (simp add: render_def is_rooted_def)
  next
    case (Cons e es')
    from that obtain k ps where es: "es = replicate k ''..'' @ ps" and ps: "\<forall>e\<in>set ps. plain_element e"
      unfolding canonical_def by blast
    have "e = ''..'' \<or> plain_element e"
      using es ps Cons by (cases k) auto
    then obtain c cs where e: "e = c # cs" "c \<noteq> CHR ''/''"
      by (cases e) (auto simp: plain_element_def)
    have "join_slash (e # es') = c # (cs @ (case es' of [] \<Rightarrow> [] | _ \<Rightarrow> ''/'' @ join_slash es'))"
      using e by (cases es') auto
    with False Cons e show ?thesis by (simp add: render_def is_rooted_def)
  qed
qed

lemma plain_element_no_slash: "plain_element e \<Longrightarrow> CHR ''/'' \<notin> set e"
  unfolding plain_element_def by blast

lemma canonical_no_slash:
  assumes "canonical r es" and "e \<in> set es"
  shows "CHR ''/'' \<notin> set e"
proof -
  from assms(1) obtain k ps where es: "es = replicate k ''..'' @ ps"
    and ps: "\<forall>e\<in>set ps. plain_element e"
    unfolding canonical_def by blast
  from assms(2) es have "e = ''..'' \<or> e \<in> set ps" by auto
  then show ?thesis
  proof
    assume "e = ''..''"
    then show ?thesis by simp
  next
    assume "e \<in> set ps"
    with ps show ?thesis by (simp add: plain_element_no_slash)
  qed
qed

lemma elements_render: "elements (render r es) = es" if c: "canonical r es"
proof -
  from c obtain k ps where es: "es = replicate k ''..'' @ ps"
    and ps: "\<forall>e\<in>set ps. plain_element e" and r: "r \<longrightarrow> k = 0"
    unfolding canonical_def by blast
  have rooted: "is_rooted (render r es) = r" using c by (rule render_rooted)
  have noslash: "\<forall>e\<in>set es. CHR ''/'' \<notin> set e" using c canonical_no_slash by blast
  show ?thesis
  proof (cases "es = []")
    case True
    then show ?thesis by (cases r) (simp_all add: elements_def render_def is_rooted_def)
  next
    case False
    have sp: "split_slash (join_slash es) = es"
      using False noslash by (rule split_join_slash)
    have fold: "foldl (clean_step r) [] es = rev es"
    proof (cases r)
      case True
      with r es ps show ?thesis by (simp add: foldl_push_plain)
    next
      case False
      have "foldl (clean_step False) [] es
          = foldl (clean_step False) (foldl (clean_step False) (replicate 0 ''..'') (replicate k ''..'')) ps"
        unfolding es by simp
      also have "\<dots> = foldl (clean_step False) (replicate k ''..'') ps"
        unfolding foldl_push_dotdot by simp
      also have "\<dots> = rev ps @ replicate k ''..''"
        using ps by (rule foldl_push_plain)
      finally show ?thesis using False es by simp
    qed
    show ?thesis
    proof (cases r)
      case True
      have "split_slash (render r es) = [] # es"
        using True sp by (simp add: render_def)
      then show ?thesis using rooted fold True by (simp add: elements_def)
    next
      case False
      then have "render r es = join_slash es" using \<open>es \<noteq> []\<close> by (simp add: render_def)
      then show ?thesis using rooted fold sp by (simp add: elements_def)
    qed
  qed
qed

lemma is_rooted_Clean: "is_rooted (Clean p) = is_rooted p"
  unfolding Clean_def by (rule render_rooted) (rule canonical_elements)

lemma elements_Clean: "elements (Clean p) = elements p"
  unfolding Clean_def by (rule elements_render) (rule canonical_elements)

lemma Clean_idem: "Clean (Clean p) = Clean p"
  by (simp add: Clean_def [of "Clean p"] is_rooted_Clean elements_Clean) (simp add: Clean_def)

lemma is_rooted_append: "a \<noteq> [] \<Longrightarrow> is_rooted (a @ b) = is_rooted a"
  by (cases a) (simp_all add: is_rooted_def)

lemma elements_append_plain:
  assumes "a \<noteq> []" and "bs \<noteq> []" and "\<forall>e\<in>set bs. plain_element e"
  shows "elements (a @ ''/'' @ join_slash bs) = elements a @ bs"
proof -
  have "split_slash (join_slash bs) = bs"
    using assms(2,3) by (intro split_join_slash) (auto simp: plain_element_def)
  then have "split_slash (a @ ''/'' @ join_slash bs) = split_slash a @ bs"
    using split_slash_append [of a "join_slash bs"] by simp
  moreover have "is_rooted (a @ ''/'' @ join_slash bs) = is_rooted a"
    using assms(1) by (rule is_rooted_append)
  ultimately show ?thesis
    using assms(3) by (simp add: elements_def foldl_push_plain)
qed

section \<open>Lemmas on the temporary file's path\<close>

lemma digit_char_not_slash: "d < 10 \<Longrightarrow> digit_char d \<noteq> CHR ''/''"
proof
  assume d: "d < 10" and eq: "digit_char d = CHR ''/''"
  then have "of_char (digit_char d) = (of_char (CHR ''/'') :: nat)" by simp
  with d show False by (simp add: digit_char_def)
qed

lemma show_nat_no_slash: "CHR ''/'' \<notin> set (show_nat n)"
proof (induction n rule: show_nat.induct)
  case (1 n)
  show ?case
  proof (cases "n < 10")
    case True
    then show ?thesis using digit_char_not_slash [of n] by (subst show_nat.simps) auto
  next
    case False
    have "n mod 10 < 10" by simp
    then have "digit_char (n mod 10) \<noteq> CHR ''/''" by (rule digit_char_not_slash)
    with False 1 show ?thesis by (subst show_nat.simps) auto
  qed
qed

lemma show_nat_nonempty: "show_nat n \<noteq> []"
  by (subst show_nat.simps) simp

lemma show_int_no_slash: "CHR ''/'' \<notin> set (show_int i)"
  by (simp add: show_int_def show_nat_no_slash)

lemma show_int_nonempty: "show_int i \<noteq> []"
  by (simp add: show_int_def show_nat_nonempty)

lemma plain_element_nonempty: "plain_element e \<Longrightarrow> e \<noteq> []"
  unfolding plain_element_def by blast

lemma join_slash_snoc:
  "join_slash (xs @ [e]) = (if xs = [] then e else join_slash xs @ ''/'' @ e)"
  by (induction xs rule: join_slash.induct) auto

lemma Base_last_element:
  assumes "e \<noteq> []" and "CHR ''/'' \<notin> set e" and "X = [] \<or> last X = CHR ''/''"
  shows "filepath_Base (X @ e) = e"
proof -
  have ne: "\<forall>c\<in>set (rev e). \<not> is_slash c" using assms(2) by (auto simp: is_slash_def)
  have hd: "\<not> is_slash (hd (rev e))" using assms(1) ne by (cases "rev e") auto
  have dw: "dropWhile is_slash (rev e @ rev X) = rev e @ rev X"
    using assms(1) hd by (cases "rev e") auto
  have tw: "takeWhile (\<lambda>c. \<not> is_slash c) (rev e @ rev X) = rev e"
  proof (cases "X = []")
    case True
    then show ?thesis using ne by (simp add: takeWhile_eq_all_conv)
  next
    case False
    with assms(3) have "hd (rev X) = CHR ''/''" by (simp add: hd_rev)
    then have "takeWhile (\<lambda>c. \<not> is_slash c) (rev X) = []"
      using False by (cases "rev X") (auto simp: is_slash_def)
    moreover have "takeWhile (\<lambda>c. \<not> is_slash c) (rev e @ rev X)
        = rev e @ takeWhile (\<lambda>c. \<not> is_slash c) (rev X)"
      using ne by (intro takeWhile_append2) simp
    ultimately show ?thesis by simp
  qed
  show ?thesis using assms(1) dw tw by (simp add: filepath_Base_def Let_def)
qed

lemma render_split_last:
  assumes "es \<noteq> []"
  shows "\<exists>X. render r es = X @ last es \<and> (X = [] \<or> last X = CHR ''/'')"
proof -
  obtain xs e where es: "es = xs @ [e]" using assms by (metis rev_exhaust)
  show ?thesis
  proof (cases "xs = []")
    case True
    then show ?thesis using es
      by (cases r) (auto simp: render_def intro: exI [of _ "''/''"] exI [of _ "[]"])
  next
    case False
    have j: "join_slash es = (join_slash xs @ ''/'') @ e"
      using es False by (simp add: join_slash_snoc)
    show ?thesis
    proof (cases r)
      case True
      then have "render r es = (CHR ''/'' # join_slash xs @ ''/'') @ last es"
        using j es by (simp add: render_def)
      then show ?thesis by (intro exI [of _ "CHR ''/'' # join_slash xs @ ''/''"]) simp
    next
      case False
      then have "render r es = (join_slash xs @ ''/'') @ last es"
        using j es by (simp add: render_def)
      then show ?thesis by (intro exI [of _ "join_slash xs @ ''/''"]) simp
    qed
  qed
qed

lemma Base_Clean_last:
  assumes "elements p \<noteq> []"
  shows "filepath_Base (Clean p) = last (elements p)"
proof -
  have c: "canonical (is_rooted p) (elements p)" by (rule canonical_elements)
  have "last (elements p) \<in> set (elements p)" using assms by simp
  then have ns: "CHR ''/'' \<notin> set (last (elements p))" using c canonical_no_slash by blast
  have ne: "last (elements p) \<noteq> []"
  proof -
    from c obtain k ps where es: "elements p = replicate k ''..'' @ ps"
      and ps: "\<forall>e\<in>set ps. plain_element e"
      unfolding canonical_def by blast
    show ?thesis
    proof (cases "ps = []")
      case True
      with es assms have "last (elements p) = ''..''" by (cases k) auto
      then show ?thesis by simp
    next
      case False
      with es have "last (elements p) \<in> set ps" by simp
      with ps show ?thesis by (simp add: plain_element_nonempty)
    qed
  qed
  from render_split_last [OF assms, of "is_rooted p"]
  obtain X where "render (is_rooted p) (elements p) = X @ last (elements p)"
    and "X = [] \<or> last X = CHR ''/''" by blast
  then show ?thesis using Base_last_element [OF ne ns] by (simp add: Clean_def)
qed

lemma Clean_nonempty: "Clean p \<noteq> []"
proof -
  have "render r es \<noteq> []" if "canonical r es" for r es
  proof (cases r)
    case True
    then show ?thesis by (simp add: render_def)
  next
    case False
    show ?thesis
    proof (cases es)
      case Nil
      then show ?thesis using False by (simp add: render_def)
    next
      case (Cons e es')
      from that obtain k ps where es: "es = replicate k ''..'' @ ps" and ps: "\<forall>e\<in>set ps. plain_element e"
        unfolding canonical_def by blast
      have "e = ''..'' \<or> plain_element e" using es ps Cons by (cases k) auto
      then have "e \<noteq> []" using plain_element_nonempty by auto
      then have "join_slash (e # es') \<noteq> []" by (cases es') auto
      then show ?thesis using False Cons by (simp add: render_def)
    qed
  qed
  then show ?thesis unfolding Clean_def using canonical_elements by blast
qed

lemma Dir_nonempty: "filepath_Dir p \<noteq> []"
  unfolding filepath_Dir_def by (rule Clean_nonempty)

lemma Join_pair: "a \<noteq> [] \<Longrightarrow> Join [a, b] = Clean (a @ ''/'' @ b)"
  by (simp add: Join_def)

lemma temp_name_plain:
  assumes "CHR ''/'' \<notin> set b"
  shows "plain_element (''.tmp.'' @ b @ ''.'' @ show_int nanos @ ''.'' @ show_nat n)"
  using assms unfolding plain_element_def
  by (simp add: show_int_no_slash show_nat_no_slash)

lemma tail_plain: "plain_element (''.'' @ show_int nanos @ ''.'' @ show_nat n)"
proof -
  obtain c cs where "show_int nanos = c # cs" using show_int_nonempty by (cases "show_int nanos") auto
  moreover have "CHR ''/'' \<notin> set (show_int nanos)" by (rule show_int_no_slash)
  ultimately show ?thesis unfolding plain_element_def by (auto simp: show_nat_no_slash)
qed

lemma elements_temp:
  "elements (Clean (tempFilePath d nanos n)) \<noteq> elements d"
proof -
  let ?D = "Clean d"
  let ?dir = "filepath_Dir ?D"
  let ?name = "tempFileName d nanos n"
  have tp: "tempFilePath d nanos n = Clean (?dir @ ''/'' @ ?name)"
    unfolding tempFilePath_def by (rule Join_pair) (rule Dir_nonempty)
  then have el: "elements (Clean (tempFilePath d nanos n)) = elements (?dir @ ''/'' @ ?name)"
    by (simp add: elements_Clean)
  show ?thesis
  proof (cases "elements d = []")
    case False
    then have ne: "elements ?D \<noteq> []" by (simp add: elements_Clean)
    have b: "filepath_Base ?D = last (elements d)"
      using Base_Clean_last [OF ne] by (simp add: Clean_idem elements_Clean)
    have "last (elements d) \<in> set (elements d)" using False by simp
    then have ns: "CHR ''/'' \<notin> set (last (elements d))"
      using canonical_elements canonical_no_slash by blast
    have pl: "plain_element ?name"
      unfolding tempFileName_def b using ns by (rule temp_name_plain)
    have "elements (?dir @ ''/'' @ join_slash [?name]) = elements ?dir @ [?name]"
      by (rule elements_append_plain) (use pl Dir_nonempty in auto)
    then have e2: "elements (Clean (tempFilePath d nanos n)) = elements ?dir @ [?name]"
      using el by simp
    show ?thesis
    proof
      assume "elements (Clean (tempFilePath d nanos n)) = elements d"
      with e2 have "last (elements d) = ?name" by (metis last_snoc)
      then have "length (last (elements d)) = length ?name" by simp
      then show False unfolding tempFileName_def b by simp
    qed
  next
    case True
    then have D: "?D = render (is_rooted d) []" by (simp add: Clean_def)
    show ?thesis
    proof (cases "is_rooted d")
      case True
      with D have D': "?D = ''/''" by (simp add: render_def)
      have dir: "?dir = ''/''" unfolding D' by (simp add: filepath_Dir_def is_slash_def Clean_def elements_def render_def is_rooted_def)
      have nm: "?name = join_slash [''.tmp.'', ''.'' @ show_int nanos @ ''.'' @ show_nat n]"
        unfolding tempFileName_def D' by (simp add: filepath_Base_def is_slash_def)
      have "elements (?dir @ ''/'' @ join_slash [''.tmp.'', ''.'' @ show_int nanos @ ''.'' @ show_nat n])
          = elements ?dir @ [''.tmp.'', ''.'' @ show_int nanos @ ''.'' @ show_nat n]"
        by (rule elements_append_plain) (use tail_plain Dir_nonempty in \<open>auto simp: plain_element_def\<close>)
      with el nm \<open>elements d = []\<close> show ?thesis by simp
    next
      case False
      with D have D': "?D = ''.''" by (simp add: render_def)
      have pl: "plain_element ?name"
        unfolding tempFileName_def D'
        by (simp add: filepath_Base_def is_slash_def) (rule temp_name_plain [of "''.''", simplified])
      have "elements (?dir @ ''/'' @ join_slash [?name]) = elements ?dir @ [?name]"
        by (rule elements_append_plain) (use pl Dir_nonempty in auto)
      with el \<open>elements d = []\<close> show ?thesis by simp
    qed
  qed
qed

lemma temp_differs: "Clean (tempFilePath d nanos n) \<noteq> Clean d"
proof
  assume "Clean (tempFilePath d nanos n) = Clean d"
  then have "elements (Clean (tempFilePath d nanos n)) = elements (Clean d)" by simp
  then show False using elements_temp [of d nanos n] by (simp add: elements_Clean)
qed

section \<open>Lemmas on the conditional fetcher\<close>

lemmas temp_differs' = temp_differs temp_differs [THEN not_sym]

lemma Clean_tempFilePath:
  "Clean (tempFilePath d nanos n) =
     Join [filepath_Dir (Clean d), ''.tmp.'' @ filepath_Base (Clean d) @ ''.'' @ show_int nanos @ ''.'' @ show_nat n]"
  unfolding tempFilePath_def tempFileName_def
  by (simp add: Join_pair [OF Dir_nonempty] Clean_idem)

lemma dfc_targets:
  assumes "DownloadFileConditional lib e url destination hdrs etag lastModified w = (r, w')"
  shows "\<forall>op\<in>set (new_ops w w'). Clean destination \<in> set (op_targets op) \<longrightarrow>
           (\<exists>n. rand_Int e = Some n \<and> op = OpRename (Clean (tempFilePath destination (UnixNano e) n)) destination)"
  using assms unfolding DownloadFileConditional_def streamToDestination_def new_ops_def
  by (auto simp: Let_def failed_def fs_do_def call_upstream_def temp_differs' Clean_idem
           split: if_splits option.splits prod.splits)

lemma dfc_once:
  assumes "DownloadFileConditional lib e url destination hdrs etag lastModified w = (r, w')"
  shows "length (filter (\<lambda>op. Clean destination \<in> set (op_targets op)) (new_ops w w')) \<le> 1"
  using assms unfolding DownloadFileConditional_def streamToDestination_def new_ops_def
  by (auto simp: Let_def failed_def fs_do_def call_upstream_def temp_differs' Clean_idem
           split: if_splits option.splits prod.splits)

lemma dfc_create:
  assumes "DownloadFileConditional lib e url destination hdrs etag lastModified w = (r, w')"
  shows "\<forall>p t. OpCreate p t \<in> set (new_ops w w') \<longrightarrow>
           (\<exists>n. rand_Int e = Some n \<and> p = Clean (tempFilePath destination (UnixNano e) n)
              \<and> last (new_ops w w') = OpRemove p \<and> files w' p = None)"
  using assms unfolding DownloadFileConditional_def streamToDestination_def new_ops_def
  by (auto simp: Let_def failed_def fs_do_def call_upstream_def temp_differs' Clean_idem
           split: if_splits option.splits prod.splits)

lemma dfc_failure:
  assumes "DownloadFileConditional lib e url destination hdrs etag lastModified w = (r, w')"
    and "err r \<noteq> None \<or> notModified r"
  shows "files w' (Clean destination) = files w (Clean destination)"
  using assms unfolding DownloadFileConditional_def streamToDestination_def new_ops_def
  by (auto simp: Let_def failed_def fs_do_def call_upstream_def temp_differs' Clean_idem
           split: if_splits option.splits prod.splits)

lemma dfc_success_env:
  assumes "DownloadFileConditional lib e url destination hdrs etag lastModified w = (r, w')"
    and "err r = None" and "\<not> notModified r"
  shows "\<exists>resp n. Do_response e = Some resp \<and> rand_Int e = Some n"
  using assms unfolding DownloadFileConditional_def streamToDestination_def new_ops_def
  by (auto simp: Let_def failed_def fs_do_def call_upstream_def temp_differs' Clean_idem
           split: if_splits option.splits prod.splits)

lemma dfc_success_files:
  assumes "DownloadFileConditional lib e url destination hdrs etag lastModified w = (r, w')"
    and "err r = None" and "\<not> notModified r" and "Do_response e = Some resp" and "rand_Int e = Some n"
  shows "StatusCode resp = 200 \<and> code r = 200
           \<and> files w' (Clean destination)
              = Some \<lparr>content = Body resp,
                      mtime = (case (if Header_Get (Header resp) ''Last-Modified'' \<noteq> []
                                     then time_Parse lib (Header_Get (Header resp) ''Last-Modified'') else None) of
                                 None \<Rightarrow> UnixNano e | Some t \<Rightarrow> t)\<rparr>"
  using assms unfolding DownloadFileConditional_def streamToDestination_def new_ops_def
  by (auto simp: Let_def failed_def fs_do_def call_upstream_def temp_differs' Clean_idem
           split: if_splits option.splits prod.splits)

lemma dfc_success_ops:
  assumes "DownloadFileConditional lib e url destination hdrs etag lastModified w = (r, w')"
    and "err r = None" and "\<not> notModified r" and "Do_response e = Some resp" and "rand_Int e = Some n"
  shows "new_ops w w'
              = [OpMkdirAll (filepath_Dir destination),
                 OpCreate (Clean (tempFilePath destination (UnixNano e) n)) (UnixNano e),
                 OpWrite (Clean (tempFilePath destination (UnixNano e) n)) (Body resp) (UnixNano e)]
                @ (case (if Header_Get (Header resp) ''Last-Modified'' \<noteq> []
                         then time_Parse lib (Header_Get (Header resp) ''Last-Modified'') else None) of
                     None \<Rightarrow> [] | Some t \<Rightarrow> [OpChtimes (Clean (tempFilePath destination (UnixNano e) n)) t])
                @ [OpClose (Clean (tempFilePath destination (UnixNano e) n)),
                   OpRename (Clean (tempFilePath destination (UnixNano e) n)) destination,
                   OpRemove (Clean (tempFilePath destination (UnixNano e) n))]"
  using assms unfolding DownloadFileConditional_def streamToDestination_def new_ops_def
  by (auto simp: Let_def failed_def fs_do_def call_upstream_def temp_differs' Clean_idem
           split: if_splits option.splits prod.splits)


section \<open>C1: atomic publish\<close>

lemma example_fetch_ok: "err (fst example_fetch) = None \<and> \<not> notModified (fst example_fetch)"
  unfolding example_fetch_def by code_simp

lemma example_fetch_ops:
  "new_ops empty_world (snd example_fetch) =
     [OpMkdirAll ''/data/cargo/crates.io/index/se/rd'',
      OpCreate ''/data/cargo/crates.io/index/se/rd/.tmp.serde.1700.42'' 1700,
      OpWrite ''/data/cargo/crates.io/index/se/rd/.tmp.serde.1700.42'' ''hello'' 1700,
      OpChtimes ''/data/cargo/crates.io/index/se/rd/.tmp.serde.1700.42'' 7000000000,
      OpClose ''/data/cargo/crates.io/index/se/rd/.tmp.serde.1700.42'',
      OpRename ''/data/cargo/crates.io/index/se/rd/.tmp.serde.1700.42'' ''/data/cargo/crates.io/index/se/rd/serde'',
      OpRemove ''/data/cargo/crates.io/index/se/rd/.tmp.serde.1700.42'']"
  unfolding example_fetch_def by code_simp

text \<open>
  Claim C1. Whatever the outside does during a call of \<open>DownloadFileConditional\<close>:
  the only operation of the call that touches the destination is one rename of the
  temporary file onto it, and there is at most one; a file the call creates is the
  temporary file \<open>.tmp.<basename>.<nanos>.<rand>\<close> in the destination's directory, it
  is not the destination, the last operation of the call removes it, and it is absent
  afterwards; a call that returns an error or 304 leaves the destination as it was; and a
  call that succeeds has received 200, has written the whole body to the temporary file
  before the rename, and leaves the whole body at the destination.
\<close>

theorem atomic_publish:
  assumes run: "DownloadFileConditional lib e url destination hdrs etag lastModified w = (r, w')"
  shows "(\<forall>op\<in>set (new_ops w w'). Clean destination \<in> set (op_targets op) \<longrightarrow>
            (\<exists>n. rand_Int e = Some n
               \<and> op = OpRename (Clean (tempFilePath destination (UnixNano e) n)) destination))
       \<and> length (filter (\<lambda>op. Clean destination \<in> set (op_targets op)) (new_ops w w')) \<le> 1
       \<and> (\<forall>p t. OpCreate p t \<in> set (new_ops w w') \<longrightarrow>
            (\<exists>n. rand_Int e = Some n
               \<and> p = Join [filepath_Dir (Clean destination),
                           ''.tmp.'' @ filepath_Base (Clean destination) @ ''.''
                             @ show_int (UnixNano e) @ ''.'' @ show_nat n]
               \<and> p \<noteq> Clean destination
               \<and> last (new_ops w w') = OpRemove p \<and> files w' p = None))
       \<and> (err r \<noteq> None \<or> notModified r \<longrightarrow> files w' (Clean destination) = files w (Clean destination))
       \<and> (err r = None \<and> \<not> notModified r \<longrightarrow>
            (\<exists>resp n tmp times.
               Do_response e = Some resp \<and> StatusCode resp = 200 \<and> code r = 200
               \<and> rand_Int e = Some n \<and> tmp = Clean (tempFilePath destination (UnixNano e) n)
               \<and> content (the (files w' (Clean destination))) = Body resp
               \<and> new_ops w w'
                  = [OpMkdirAll (filepath_Dir destination), OpCreate tmp (UnixNano e),
                     OpWrite tmp (Body resp) (UnixNano e)]
                    @ map (OpChtimes tmp) times
                    @ [OpClose tmp, OpRename tmp destination, OpRemove tmp]))"
proof (intro conjI)
  show "\<forall>op\<in>set (new_ops w w'). Clean destination \<in> set (op_targets op) \<longrightarrow>
          (\<exists>n. rand_Int e = Some n
             \<and> op = OpRename (Clean (tempFilePath destination (UnixNano e) n)) destination)"
    using run by (rule dfc_targets)
  show "length (filter (\<lambda>op. Clean destination \<in> set (op_targets op)) (new_ops w w')) \<le> 1"
    using run by (rule dfc_once)
  show "\<forall>p t. OpCreate p t \<in> set (new_ops w w') \<longrightarrow>
          (\<exists>n. rand_Int e = Some n
             \<and> p = Join [filepath_Dir (Clean destination),
                         ''.tmp.'' @ filepath_Base (Clean destination) @ ''.''
                           @ show_int (UnixNano e) @ ''.'' @ show_nat n]
             \<and> p \<noteq> Clean destination
             \<and> last (new_ops w w') = OpRemove p \<and> files w' p = None)"
  proof (intro allI impI)
    fix p t
    assume "OpCreate p t \<in> set (new_ops w w')"
    with dfc_create [OF run] obtain n where n: "rand_Int e = Some n"
      "p = Clean (tempFilePath destination (UnixNano e) n)"
      "last (new_ops w w') = OpRemove p" "files w' p = None"
      by blast
    have "p \<noteq> Clean destination" unfolding n(2) by (rule temp_differs)
    with n show "\<exists>n. rand_Int e = Some n
             \<and> p = Join [filepath_Dir (Clean destination),
                         ''.tmp.'' @ filepath_Base (Clean destination) @ ''.''
                           @ show_int (UnixNano e) @ ''.'' @ show_nat n]
             \<and> p \<noteq> Clean destination
             \<and> last (new_ops w w') = OpRemove p \<and> files w' p = None"
      unfolding Clean_tempFilePath by (intro exI [of _ n]) simp
  qed
  show "err r \<noteq> None \<or> notModified r \<longrightarrow> files w' (Clean destination) = files w (Clean destination)"
    using dfc_failure [OF run] by blast
  show "err r = None \<and> \<not> notModified r \<longrightarrow>
          (\<exists>resp n tmp times.
             Do_response e = Some resp \<and> StatusCode resp = 200 \<and> code r = 200
             \<and> rand_Int e = Some n \<and> tmp = Clean (tempFilePath destination (UnixNano e) n)
             \<and> content (the (files w' (Clean destination))) = Body resp
             \<and> new_ops w w'
                = [OpMkdirAll (filepath_Dir destination), OpCreate tmp (UnixNano e),
                   OpWrite tmp (Body resp) (UnixNano e)]
                  @ map (OpChtimes tmp) times
                  @ [OpClose tmp, OpRename tmp destination, OpRemove tmp])"
  proof
    assume ok: "err r = None \<and> \<not> notModified r"
    then obtain resp n where rn: "Do_response e = Some resp" "rand_Int e = Some n"
      using dfc_success_env [OF run] by blast
    let ?tmp = "Clean (tempFilePath destination (UnixNano e) n)"
    let ?parsed = "if Header_Get (Header resp) ''Last-Modified'' \<noteq> []
                   then time_Parse lib (Header_Get (Header resp) ''Last-Modified'') else None"
    let ?times = "case ?parsed of None \<Rightarrow> [] | Some t \<Rightarrow> [t]"
    have f: "StatusCode resp = 200" "code r = 200"
      "content (the (files w' (Clean destination))) = Body resp"
      using dfc_success_files [OF run _ _ rn] ok by simp_all
    have "new_ops w w'
        = [OpMkdirAll (filepath_Dir destination), OpCreate ?tmp (UnixNano e),
           OpWrite ?tmp (Body resp) (UnixNano e)]
          @ map (OpChtimes ?tmp) ?times
          @ [OpClose ?tmp, OpRename ?tmp destination, OpRemove ?tmp]"
      using dfc_success_ops [OF run _ _ rn] ok by (simp split: option.splits)
    with rn f show "\<exists>resp n tmp times.
             Do_response e = Some resp \<and> StatusCode resp = 200 \<and> code r = 200
             \<and> rand_Int e = Some n \<and> tmp = Clean (tempFilePath destination (UnixNano e) n)
             \<and> content (the (files w' (Clean destination))) = Body resp
             \<and> new_ops w w'
                = [OpMkdirAll (filepath_Dir destination), OpCreate tmp (UnixNano e),
                   OpWrite tmp (Body resp) (UnixNano e)]
                  @ map (OpChtimes tmp) times
                  @ [OpClose tmp, OpRename tmp destination, OpRemove tmp]"
      by blast
  qed
qed

theorem atomic_publish_witness:
  "err (fst example_fetch) = None \<and> \<not> notModified (fst example_fetch)
   \<and> code (fst example_fetch) = 200
   \<and> content (the (files (snd example_fetch) (Clean ''/data/cargo/crates.io/index/se/rd/serde''))) = ''hello''
   \<and> files (snd example_fetch) ''/data/cargo/crates.io/index/se/rd/.tmp.serde.1700.42'' = None
   \<and> last (new_ops empty_world (snd example_fetch))
        = OpRemove ''/data/cargo/crates.io/index/se/rd/.tmp.serde.1700.42''"
proof -
  have run: "DownloadFileConditional example_lib example_cond ''https://index.crates.io/se/rd/serde''
       ''/data/cargo/crates.io/index/se/rd/serde'' [(''User-Agent'', ''cargo'')] [] [] empty_world
       = (fst example_fetch, snd example_fetch)"
    by (simp add: example_fetch_def)
  note t = atomic_publish [OF run]
  have created: "OpCreate ''/data/cargo/crates.io/index/se/rd/.tmp.serde.1700.42'' 1700
      \<in> set (new_ops empty_world (snd example_fetch))"
    by (simp add: example_fetch_ops)
  from t created have c:
    "last (new_ops empty_world (snd example_fetch))
        = OpRemove ''/data/cargo/crates.io/index/se/rd/.tmp.serde.1700.42''"
    "files (snd example_fetch) ''/data/cargo/crates.io/index/se/rd/.tmp.serde.1700.42'' = None"
    by blast+
  from t example_fetch_ok obtain resp where
    "Do_response example_cond = Some resp" "code (fst example_fetch) = 200"
    "content (the (files (snd example_fetch) (Clean ''/data/cargo/crates.io/index/se/rd/serde''))) = Body resp"
    by blast
  then have "code (fst example_fetch) = 200"
    "content (the (files (snd example_fetch) (Clean ''/data/cargo/crates.io/index/se/rd/serde''))) = ''hello''"
    by (auto simp: example_cond_def example_response_def)
  with c example_fetch_ok show ?thesis by simp
qed

end
